theory Spec2Isabelle
  imports Main
begin

section \<open>Effects: results, raised errors and the trace of observable actions\<close>

text \<open>
  The state machine of \<^verbatim>\<open>finite-state-machine.ts\<close> and its order adapter of
  \<^verbatim>\<open>order-state-machine.ts\<close> are asynchronous TypeScript: every operation may
  change the surrounding world, may raise, and calls back into code supplied by the
  caller. A computation is therefore a function from the world before to three things:
  its result (\<open>Inr\<close>) or the error it raised (\<open>Inl\<close>), the observable actions it
  performed in order (the trace), and the world after. A raise keeps the trace and the
  world reached so far, as a JavaScript exception keeps the heap.
\<close>

type_synonym state = string

datatype error =
    TypeError
  | IllegalOperationError string state state
  | Thrown string

type_synonym ('a, 'e, 'w) eff = "'w \<Rightarrow> (error + 'a) \<times> 'e list \<times> 'w"

definition return :: "'a \<Rightarrow> ('a, 'e, 'w) eff" where
  "return a = (\<lambda>w. (Inr a, [], w))"

definition throw :: "error \<Rightarrow> ('a, 'e, 'w) eff" where
  "throw e = (\<lambda>w. (Inl e, [], w))"

definition emit :: "'e \<Rightarrow> (unit, 'e, 'w) eff" where
  "emit e = (\<lambda>w. (Inr (), [e], w))"

definition bind :: "('a, 'e, 'w) eff \<Rightarrow> ('a \<Rightarrow> ('b, 'e, 'w) eff) \<Rightarrow> ('b, 'e, 'w) eff" where
  "bind m f = (\<lambda>w.
     case m w of
       (Inl e, es, w') \<Rightarrow> (Inl e, es, w')
     | (Inr a, es, w') \<Rightarrow> (case f a w' of (r, es', w'') \<Rightarrow> (r, es @ es', w'')))"

section \<open>The generic engine (finite-state-machine.ts)\<close>

text \<open>
  \<^verbatim>\<open>Transitions<T>\<close> is an object with one property per state, each holding
  \<^verbatim>\<open>{ to: T[] }\<close>: an association list read with \<open>map_of\<close>. The resolved value of
  \<^verbatim>\<open>onTransitionStart\<close> is \<^verbatim>\<open>boolean | string | void\<close>.
\<close>

type_synonym Transitions = "(state \<times> state list) list"

datatype guard_result = ResVoid | ResBool bool | ResString string

record ('d, 'e, 'w) StateMachineConfig =
  transitions :: Transitions
  onTransitionStart :: "(state \<Rightarrow> state \<Rightarrow> 'd \<Rightarrow> (guard_result, 'e, 'w) eff) option"
  onTransitionEnd :: "(state \<Rightarrow> state \<Rightarrow> 'd \<Rightarrow> (unit, 'e, 'w) eff) option"
  onError :: "(state \<Rightarrow> state \<Rightarrow> string option \<Rightarrow> (unit, 'e, 'w) eff) option"

record FSM =
  initialState :: state
  currentState :: state

text \<open>
  The trace records what the engine does, in order: \<open>GuardInvoked\<close> is the call of
  \<^verbatim>\<open>config.onTransitionStart\<close>, \<open>Committed\<close> the assignment
  \<^verbatim>\<open>this._currentState = state\<close>, \<open>EndInvoked\<close> the call of
  \<^verbatim>\<open>config.onTransitionEnd\<close>, \<open>ErrorInvoked\<close> the call of the private method
  \<^verbatim>\<open>onError\<close> (which calls the configured handler, if there is one). \<open>Client\<close>
  wraps the actions of the engine's client (the callbacks and the caller): a callback
  returns the actions it performed and can neither forge nor erase the engine's.
\<close>

datatype 'e fsm_event =
    GuardInvoked state state
  | Committed state
  | EndInvoked state state
  | ErrorInvoked state state "string option"
  | Client 'e

definition new_FSM :: "state \<Rightarrow> FSM" where
  "new_FSM initial = \<lparr>initialState = initial, currentState = initial\<rparr>"

definition jumpTo :: "state \<Rightarrow> FSM \<Rightarrow> FSM" where
  "jumpTo st fsm = fsm\<lparr>currentState := st\<rparr>"

text \<open>\<^verbatim>\<open>Array.prototype.indexOf\<close>: the first index of the element, or -1.\<close>

definition indexOf :: "'a list \<Rightarrow> 'a \<Rightarrow> int" where
  "indexOf xs x = (if x \<in> set xs then int (length (takeWhile (\<lambda>y. y \<noteq> x) xs)) else - 1)"

text \<open>
  \<^verbatim>\<open>this.config.transitions[this._currentState].to\<close>: a current state with no
  property in the graph reads \<^verbatim>\<open>.to\<close> of \<^verbatim>\<open>undefined\<close>, a TypeError.
\<close>

definition getNextStates :: "('d, 'e, 'w) StateMachineConfig \<Rightarrow> FSM \<Rightarrow> error + state list" where
  "getNextStates cfg fsm =
     (case map_of (transitions cfg) (currentState fsm) of
        None \<Rightarrow> Inl TypeError
      | Some ds \<Rightarrow> Inr ds)"

definition canTransitionTo :: "('d, 'e, 'w) StateMachineConfig \<Rightarrow> FSM \<Rightarrow> state \<Rightarrow> error + bool" where
  "canTransitionTo cfg fsm st =
     (case map_of (transitions cfg) (currentState fsm) of
        None \<Rightarrow> Inl TypeError
      | Some ds \<Rightarrow> Inr (- 1 < indexOf ds st))"

text \<open>The engine's computations run on the pair of the engine object and the world.\<close>

definition client :: "('a, 'e, 'w) eff \<Rightarrow> ('a, 'e fsm_event, FSM \<times> 'w) eff" where
  "client m = (\<lambda>(fsm, w). case m w of (r, es, w') \<Rightarrow> (r, map Client es, (fsm, w')))"

definition get_currentState :: "(state, 'e fsm_event, FSM \<times> 'w) eff" where
  "get_currentState = (\<lambda>(fsm, w). (Inr (currentState fsm), [], (fsm, w)))"

definition set_currentState :: "state \<Rightarrow> (unit, 'e fsm_event, FSM \<times> 'w) eff" where
  "set_currentState st = (\<lambda>(fsm, w). (Inr (), [Committed st], (fsm\<lparr>currentState := st\<rparr>, w)))"

definition check_canTransitionTo ::
  "('d, 'e, 'w) StateMachineConfig \<Rightarrow> state \<Rightarrow> (bool, 'e fsm_event, FSM \<times> 'w) eff" where
  "check_canTransitionTo cfg st = (\<lambda>(fsm, w). (canTransitionTo cfg fsm st, [], (fsm, w)))"

definition FSM_onError ::
  "('d, 'e, 'w) StateMachineConfig \<Rightarrow> state \<Rightarrow> state \<Rightarrow> string option \<Rightarrow>
     (unit, 'e fsm_event, FSM \<times> 'w) eff" where
  "FSM_onError cfg fromState toState message =
     bind (emit (ErrorInvoked fromState toState message)) (\<lambda>_.
       case onError cfg of
         Some handler \<Rightarrow> client (handler fromState toState message)
       | None \<Rightarrow> return ())"

text \<open>
  \<^verbatim>\<open>transitionTo\<close>. The guard phase yields whether to go on: the guard's resolved
  value \<^verbatim>\<open>false\<close> or a string routes to \<^verbatim>\<open>onError\<close> and stops; with no guard
  configured the engine goes on at once.
\<close>

definition transitionTo ::
  "('d, 'e, 'w) StateMachineConfig \<Rightarrow> state \<Rightarrow> 'd \<Rightarrow> (unit, 'e fsm_event, FSM \<times> 'w) eff" where
  "transitionTo cfg st d =
     bind (check_canTransitionTo cfg st) (\<lambda>can.
       if can then
         bind
           (case onTransitionStart cfg of
              None \<Rightarrow> return True
            | Some guard \<Rightarrow>
                bind get_currentState (\<lambda>cur.
                bind (emit (GuardInvoked cur st)) (\<lambda>_.
                bind (client (guard cur st d)) (\<lambda>canTransition.
                  case canTransition of
                    ResBool False \<Rightarrow> bind (FSM_onError cfg cur st None) (\<lambda>_. return False)
                  | ResString message \<Rightarrow> bind (FSM_onError cfg cur st (Some message)) (\<lambda>_. return False)
                  | _ \<Rightarrow> return True))))
           (\<lambda>proceed.
              if proceed then
                bind get_currentState (\<lambda>fromState.
                bind (set_currentState st) (\<lambda>_.
                  case onTransitionEnd cfg of
                    Some hook \<Rightarrow> bind (emit (EndInvoked fromState st)) (\<lambda>_. client (hook fromState st d))
                  | None \<Rightarrow> return ()))
              else return ())
       else
         bind get_currentState (\<lambda>cur. FSM_onError cfg cur st None))"

section \<open>The order adapter (order-state-machine.ts)\<close>

text \<open>
  The entity, with the fields the adapter reads (\<^verbatim>\<open>state\<close>, \<^verbatim>\<open>lines\<close>,
  \<^verbatim>\<open>customer\<close>, and \<^verbatim>\<open>id\<close>, here \<open>order_id\<close>) and writes
  (\<^verbatim>\<open>state\<close>, \<^verbatim>\<open>active\<close>, \<^verbatim>\<open>orderPlacedAt\<close>). Of the lines only their
  number is read, of the customer only whether there is one. The world holds the entity,
  the clock that \<^verbatim>\<open>new Date()\<close> reads, and whatever else the external code keeps.
\<close>

record Order =
  order_id :: nat
  state :: state
  lines :: "nat list"
  customer :: "nat option"
  active :: bool
  orderPlacedAt :: "nat option"

record 'x world =
  order :: Order
  clock :: nat
  ext :: 'x

text \<open>
  External code (the hooks of the strategy and of the process options, and the three
  services) is opaque: it may read and change all of the world, raise, and return either
  a plain value or a promise (an observable is awaited through its promise). Calling it
  runs it up to its return; awaiting a returned promise runs the promise until it settles.
  A promise that is returned and not awaited is not run within the call: its effects
  are still outstanding when the caller goes on. An awaited promise is taken to settle
  (to a value or to an error); one that never settles is outside this model.
\<close>

datatype ('r, 'w) returned = Plain 'r | Promise "'w \<Rightarrow> (error + 'r) \<times> 'w"

type_synonym ('r, 'w) callback = "'w \<Rightarrow> (error + ('r, 'w) returned) \<times> 'w"

datatype callee =
    StrategyOnTransitionStart state state
  | ProcessOnTransitionStart state state
  | StrategyOnTransitionEnd state state
  | ProcessOnTransitionEnd state state
  | StrategyOnTransitionError state state "string option"
  | ProcessOnTransitionError state state "string option"
  | CreateSalesForOrder
  | AddPromotionsToOrder
  | CreateHistoryEntryForOrder nat state state

text \<open>
  The adapter's observable actions: a call of external code, its completion (it returned
  a plain value, or its promise was awaited and settled), a promise left pending, and
  the writes to the entity.
\<close>

datatype order_event =
    Called callee
  | Completed callee
  | Pending callee
  | SetActive bool
  | SetOrderPlacedAt nat
  | SetState state

definition settle :: "('r, 'w) callback \<Rightarrow> 'w \<Rightarrow> (error + 'r) \<times> 'w" where
  "settle f = (\<lambda>w.
     case f w of
       (Inl e, w1) \<Rightarrow> (Inl e, w1)
     | (Inr (Plain r), w1) \<Rightarrow> (Inr r, w1)
     | (Inr (Promise p), w1) \<Rightarrow> p w1)"

definition await_call :: "callee \<Rightarrow> ('r, 'w) callback \<Rightarrow> ('r, order_event, 'w) eff" where
  "await_call c f = (\<lambda>w.
     case settle f w of
       (Inl e, w') \<Rightarrow> (Inl e, [Called c], w')
     | (Inr r, w') \<Rightarrow> (Inr r, [Called c, Completed c], w'))"

definition call_unawaited :: "callee \<Rightarrow> ('r, 'w) callback \<Rightarrow> (unit, order_event, 'w) eff" where
  "call_unawaited c f = (\<lambda>w.
     case f w of
       (Inl e, w1) \<Rightarrow> (Inl e, [Called c], w1)
     | (Inr (Plain r), w1) \<Rightarrow> (Inr (), [Called c, Completed c], w1)
     | (Inr (Promise p), w1) \<Rightarrow> (Inr (), [Called c, Pending c], w1))"

record ('c, 'x) OrderProcessStrategy =
  strategy_onTransitionStart :: "(state \<Rightarrow> state \<Rightarrow> 'c \<Rightarrow> (guard_result, 'x world) callback) option"
  strategy_onTransitionEnd :: "(state \<Rightarrow> state \<Rightarrow> 'c \<Rightarrow> (unit, 'x world) callback) option"
  strategy_onTransitionError :: "(state \<Rightarrow> state \<Rightarrow> string option \<Rightarrow> (unit, 'x world) callback) option"

record ('c, 'x) OrderProcessOptions =
  process_onTransitionStart :: "(state \<Rightarrow> state \<Rightarrow> 'c \<Rightarrow> (guard_result, 'x world) callback) option"
  process_onTransitionEnd :: "(state \<Rightarrow> state \<Rightarrow> 'c \<Rightarrow> (unit, 'x world) callback) option"
  process_onTransitionError :: "(state \<Rightarrow> state \<Rightarrow> string option \<Rightarrow> (unit, 'x world) callback) option"

record ('c, 'x) services =
  createSalesForOrder :: "(unit, 'x world) callback"
  addPromotionsToOrder :: "(unit, 'x world) callback"
  createHistoryEntryForOrder :: "nat \<Rightarrow> 'c \<Rightarrow> state \<Rightarrow> state \<Rightarrow> (unit, 'x world) callback"

definition set_active :: "bool \<Rightarrow> (unit, order_event, 'x world) eff" where
  "set_active b = (\<lambda>w. (Inr (), [SetActive b], w\<lparr>order := (order w)\<lparr>active := b\<rparr>\<rparr>))"

definition stamp_orderPlacedAt :: "(unit, order_event, 'x world) eff" where
  "stamp_orderPlacedAt = (\<lambda>w.
     (Inr (), [SetOrderPlacedAt (clock w)], w\<lparr>order := (order w)\<lparr>orderPlacedAt := Some (clock w)\<rparr>\<rparr>))"

definition get_order :: "(Order, order_event, 'x world) eff" where
  "get_order = (\<lambda>w. (Inr (order w), [], w))"

text \<open>The adapter's private \<^verbatim>\<open>onTransitionStart\<close>: the built-in rule.\<close>

definition OrderStateMachine_onTransitionStart ::
  "state \<Rightarrow> state \<Rightarrow> (guard_result, order_event, 'x world) eff" where
  "OrderStateMachine_onTransitionStart fromState toState =
     bind get_order (\<lambda>ord.
       if toState = ''ArrangingPayment'' then
         if length (lines ord) = 0 then
           return (ResString ''error.cannot-transition-to-payment-when-order-is-empty'')
         else if customer ord = None then
           return (ResString ''error.cannot-transition-to-payment-without-customer'')
         else return ResVoid
       else return ResVoid)"

text \<open>The adapter's private \<^verbatim>\<open>onTransitionEnd\<close>: the built-in side effects.\<close>

definition OrderStateMachine_onTransitionEnd ::
  "('c, 'x) services \<Rightarrow> state \<Rightarrow> state \<Rightarrow> 'c \<Rightarrow> (unit, order_event, 'x world) eff" where
  "OrderStateMachine_onTransitionEnd svc fromState toState ctx =
     bind
       (if toState = ''PaymentAuthorized'' \<or> toState = ''PaymentSettled'' then
          bind (set_active False) (\<lambda>_.
          bind stamp_orderPlacedAt (\<lambda>_.
          bind (await_call CreateSalesForOrder (createSalesForOrder svc)) (\<lambda>_.
            await_call AddPromotionsToOrder (addPromotionsToOrder svc))))
        else return ())
       (\<lambda>_.
     bind (if toState = ''Cancelled'' then set_active False else return ()) (\<lambda>_.
     bind get_order (\<lambda>ord.
       await_call (CreateHistoryEntryForOrder (order_id ord) fromState toState)
         (createHistoryEntryForOrder svc (order_id ord) ctx fromState toState))))"

text \<open>\<^verbatim>\<open>resolvedResult === false || typeof resolvedResult === 'string'\<close>\<close>

fun rejects :: "guard_result \<Rightarrow> bool" where
  "rejects (ResBool b) = (\<not> b)"
| "rejects (ResString m) = True"
| "rejects ResVoid = False"

text \<open>
  \<^verbatim>\<open>initConfig\<close>: the three wrappers it builds, and the configuration that holds
  them. The strategy's hooks are awaited; of the hooks of the process options only
  \<^verbatim>\<open>onTransitionStart\<close> is, \<^verbatim>\<open>onTransitionEnd\<close> and \<^verbatim>\<open>onTransitionError\<close>
  are called and their result dropped.
  \<^verbatim>\<open>message || 'error.cannot-transition-order-from-to'\<close> takes the default for a
  missing and for an empty message.
\<close>

definition initConfig_onTransitionStart ::
  "('c, 'x) OrderProcessOptions \<Rightarrow> ('c, 'x) OrderProcessStrategy \<Rightarrow>
     state \<Rightarrow> state \<Rightarrow> 'c \<Rightarrow> (guard_result, order_event, 'x world) eff" where
  "initConfig_onTransitionStart process orderProcessStrategy fromState toState data =
     bind
       (case strategy_onTransitionStart orderProcessStrategy of
          Some f \<Rightarrow> await_call (StrategyOnTransitionStart fromState toState) (f fromState toState data)
        | None \<Rightarrow>
            (case process_onTransitionStart process of
               Some f \<Rightarrow> await_call (ProcessOnTransitionStart fromState toState) (f fromState toState data)
             | None \<Rightarrow> return ResVoid))
       (\<lambda>resolvedResult.
          if rejects resolvedResult then return resolvedResult
          else OrderStateMachine_onTransitionStart fromState toState)"

definition initConfig_onTransitionEnd ::
  "('c, 'x) OrderProcessOptions \<Rightarrow> ('c, 'x) OrderProcessStrategy \<Rightarrow> ('c, 'x) services \<Rightarrow>
     state \<Rightarrow> state \<Rightarrow> 'c \<Rightarrow> (unit, order_event, 'x world) eff" where
  "initConfig_onTransitionEnd process orderProcessStrategy svc fromState toState data =
     bind
       (case strategy_onTransitionEnd orderProcessStrategy of
          Some f \<Rightarrow> await_call (StrategyOnTransitionEnd fromState toState) (f fromState toState data)
        | None \<Rightarrow>
            (case process_onTransitionEnd process of
               Some f \<Rightarrow> call_unawaited (ProcessOnTransitionEnd fromState toState) (f fromState toState data)
             | None \<Rightarrow> return ()))
       (\<lambda>_. OrderStateMachine_onTransitionEnd svc fromState toState data)"

definition message_or_default :: "string option \<Rightarrow> string" where
  "message_or_default message =
     (case message of
        None \<Rightarrow> ''error.cannot-transition-order-from-to''
      | Some m \<Rightarrow> if m = [] then ''error.cannot-transition-order-from-to'' else m)"

definition initConfig_onError ::
  "('c, 'x) OrderProcessOptions \<Rightarrow> ('c, 'x) OrderProcessStrategy \<Rightarrow>
     state \<Rightarrow> state \<Rightarrow> string option \<Rightarrow> (unit, order_event, 'x world) eff" where
  "initConfig_onError process orderProcessStrategy fromState toState message =
     bind
       (case strategy_onTransitionError orderProcessStrategy of
          Some f \<Rightarrow>
            await_call (StrategyOnTransitionError fromState toState message) (f fromState toState message)
        | None \<Rightarrow>
            (case process_onTransitionError process of
               Some f \<Rightarrow>
                 call_unawaited (ProcessOnTransitionError fromState toState message)
                   (f fromState toState message)
             | None \<Rightarrow> return ()))
       (\<lambda>_. throw (IllegalOperationError (message_or_default message) fromState toState))"

definition initConfig ::
  "('c, 'x) OrderProcessOptions \<Rightarrow> ('c, 'x) OrderProcessStrategy \<Rightarrow> ('c, 'x) services \<Rightarrow>
     Transitions \<Rightarrow> ('c, order_event, 'x world) StateMachineConfig" where
  "initConfig process orderProcessStrategy svc allTransitions =
     \<lparr>transitions = allTransitions,
      onTransitionStart = Some (initConfig_onTransitionStart process orderProcessStrategy),
      onTransitionEnd = Some (initConfig_onTransitionEnd process orderProcessStrategy svc),
      onError = Some (initConfig_onError process orderProcessStrategy)\<rparr>"

definition getInitialState :: state where
  "getInitialState = ''AddingItems''"

definition canTransition ::
  "('c, order_event, 'x world) StateMachineConfig \<Rightarrow> state \<Rightarrow> state \<Rightarrow> error + bool" where
  "canTransition config cur newState = canTransitionTo config (new_FSM cur) newState"

definition OrderStateMachine_getNextStates ::
  "('c, order_event, 'x world) StateMachineConfig \<Rightarrow> Order \<Rightarrow> error + state list" where
  "OrderStateMachine_getNextStates config ord = getNextStates config (new_FSM (state ord))"

text \<open>
  \<^verbatim>\<open>transition\<close>: a fresh engine at the entity's state; when \<^verbatim>\<open>transitionTo\<close>
  returns, \<^verbatim>\<open>order.state = state\<close>; when it raises, the raise goes to the caller
  and the write is not reached.
\<close>

definition transition ::
  "('c, order_event, 'x world) StateMachineConfig \<Rightarrow> 'c \<Rightarrow> state \<Rightarrow>
     (unit, order_event fsm_event, 'x world) eff" where
  "transition config ctx st = (\<lambda>w.
     case transitionTo config st ctx (new_FSM (state (order w)), w) of
       (Inl e, es, (fsm, w')) \<Rightarrow> (Inl e, es, w')
     | (Inr _, es, (fsm, w')) \<Rightarrow>
         (Inr (), es @ [Client (SetState st)], w'\<lparr>order := (order w')\<lparr>state := st\<rparr>\<rparr>))"

section \<open>Merging transition definitions: the object store\<close>

text \<open>
  \<^verbatim>\<open>mergeTransitionDefinitions\<close> binds \<^verbatim>\<open>merged\<close> to the object it was given as
  \<^verbatim>\<open>defaultTranstions\<close> and assigns through it, so what it does depends on which
  objects are shared. The store maps references to objects, graph objects and entry
  objects each in a map of their own (a reference of the one kind never denotes an object
  of the other). A graph object is the list of its own properties in the order
  \<^verbatim>\<open>Object.keys\<close> enumerates them, each a key and the reference of its entry object,
  and its prototype: \<open>None\<close> for \<^verbatim>\<open>Object.prototype\<close>, or the entry object that an
  assignment to \<^verbatim>\<open>__proto__\<close> has put there. A list that names a key twice denotes
  the object that holds the first of the two (\<open>map_of\<close>). An entry object
  \<^verbatim>\<open>{ to: [...] }\<close> is its \<^verbatim>\<open>to\<close> array (an array is a value here:
  \<^verbatim>\<open>concat\<close> builds a new array and no array is changed in place). The objects are
  plain extensible data objects, as object literals are: no accessor of their own, not
  frozen, and \<^verbatim>\<open>Object.prototype\<close>, which is as the language defines it, at the end
  of every prototype chain.
\<close>

type_synonym ref = nat

type_synonym entry_ref = nat

record store =
  properties :: "ref \<Rightarrow> (state \<times> entry_ref) list"
  prototype :: "ref \<Rightarrow> entry_ref option"
  to_field :: "entry_ref \<Rightarrow> state list"

text \<open>
  \<^verbatim>\<open>Object.keys(o)\<close>: the names of the own properties, each once, at its first place
  in the list (\<open>remdups\<close> keeps the last of two, hence the reversals).
\<close>

definition Object_keys :: "store \<Rightarrow> ref \<Rightarrow> state list" where
  "Object_keys s r = rev (remdups (rev (map fst (properties s r))))"


text \<open>
  The loop over \<^verbatim>\<open>Object.keys(customTranstitions)\<close>, one key at a time.

  \<^verbatim>\<open>merged.hasOwnProperty(key)\<close> looks the method up on \<^verbatim>\<open>merged\<close> itself: once
  \<^verbatim>\<open>merged\<close> has an own property named \<^verbatim>\<open>hasOwnProperty\<close>, what is found is that
  property's entry object, which is not a function, and the call raises a TypeError.
  Otherwise the method is the inherited one (an entry object that has become the
  prototype has no property of that name) and answers whether the key is an own property.

  With the key among the own properties, the \<^verbatim>\<open>to\<close> field of the entry that
  \<^verbatim>\<open>merged\<close> holds is assigned the concatenation. Otherwise \<^verbatim>\<open>merged[key]\<close> is
  assigned the very entry object of \<^verbatim>\<open>customTranstitions\<close>: for the key
  \<^verbatim>\<open>__proto__\<close> the assignment runs the inherited setter, which makes that object
  the prototype of \<^verbatim>\<open>merged\<close> and adds no property; for every other key
  \<^verbatim>\<open>merged\<close> gets the property, after the ones it has (its place in the enumeration
  unless the key is an array index, which \<^verbatim>\<open>Object.keys\<close> lists before the other
  keys; the loop looks keys up in \<^verbatim>\<open>merged\<close> and never enumerates it).

  For a key that \<^verbatim>\<open>customTranstitions\<close> does not have,
  \<^verbatim>\<open>customTranstitions[key]\<close> is \<^verbatim>\<open>undefined\<close>: the first branch then raises on
  reading its \<^verbatim>\<open>to\<close>, and the second would bind the key to \<^verbatim>\<open>undefined\<close>, which
  the store cannot hold, so the model raises there as well. \<open>merge_keys_raises\<close> below
  shows that for the keys of the object itself the loop raises through a property named
  \<^verbatim>\<open>hasOwnProperty\<close> and in no other way.
\<close>

fun merge_keys :: "ref \<Rightarrow> ref \<Rightarrow> state list \<Rightarrow> store \<Rightarrow> error + store" where
  "merge_keys merged custom [] s = Inr s"
| "merge_keys merged custom (key # keys) s =
     (case map_of (properties s merged) ''hasOwnProperty'' of
        Some h \<Rightarrow> Inl TypeError
      | None \<Rightarrow>
          (case map_of (properties s merged) key of
             Some m \<Rightarrow>
               (case map_of (properties s custom) key of
                  None \<Rightarrow> Inl TypeError
                | Some c \<Rightarrow>
                    merge_keys merged custom keys
                      (s\<lparr>to_field := (to_field s)(m := to_field s m @ to_field s c)\<rparr>))
           | None \<Rightarrow>
               (case map_of (properties s custom) key of
                  None \<Rightarrow> Inl TypeError
                | Some c \<Rightarrow>
                    if key = ''__proto__'' then
                      merge_keys merged custom keys
                        (s\<lparr>prototype := (prototype s)(merged := Some c)\<rparr>)
                    else
                      merge_keys merged custom keys
                        (s\<lparr>properties := (properties s)(merged := properties s merged @ [(key, c)])\<rparr>))))"

definition mergeTransitionDefinitions :: "ref \<Rightarrow> ref option \<Rightarrow> store \<Rightarrow> error + (ref \<times> store)" where
  "mergeTransitionDefinitions defaultTranstions customTranstitions s =
     (case customTranstitions of
        None \<Rightarrow> Inr (defaultTranstions, s)
      | Some custom \<Rightarrow>
          (case merge_keys defaultTranstions custom (Object_keys s custom) s of
             Inl e \<Rightarrow> Inl e
           | Inr s' \<Rightarrow> Inr (defaultTranstions, s')))"

text \<open>The graph of an object's own properties: each key with its destination list.\<close>

definition graph_of :: "store \<Rightarrow> ref \<Rightarrow> Transitions" where
  "graph_of s g = map (\<lambda>(key, e). (key, to_field s e)) (properties s g)"

text \<open>
  The first statement of \<^verbatim>\<open>initConfig\<close> that builds the graph:
  \<^verbatim>\<open>mergeTransitionDefinitions(orderStateTransitions, transitions)\<close>, where
  \<^verbatim>\<open>orderStateTransitions\<close> is the module's one base graph (declared in
  \<^verbatim>\<open>order-state.ts\<close>, its reference a parameter here) and \<^verbatim>\<open>transitions\<close> the
  graph of the process options (absent, \<open>None\<close>, when the options give none). It yields
  the graph the new configuration holds, as the list of the merged object's own
  properties, and the store it leaves to the next build.
\<close>

definition build_allTransitions :: "ref \<Rightarrow> ref option \<Rightarrow> store \<Rightarrow> error + (Transitions \<times> store)" where
  "build_allTransitions orderStateTransitions custom s =
     (case mergeTransitionDefinitions orderStateTransitions custom s of
        Inl e \<Rightarrow> Inl e
      | Inr (allTransitions, s') \<Rightarrow> Inr (graph_of s' allTransitions, s'))"

text \<open>Two configurations built one after the other in the same process.\<close>

definition build_twice :: "ref \<Rightarrow> ref option \<Rightarrow> store \<Rightarrow> error + (Transitions \<times> Transitions \<times> store)" where
  "build_twice orderStateTransitions custom s =
     (case build_allTransitions orderStateTransitions custom s of
        Inl e \<Rightarrow> Inl e
      | Inr (first, s1) \<Rightarrow>
          (case build_allTransitions orderStateTransitions custom s1 of
             Inl e \<Rightarrow> Inl e
           | Inr (second, s2) \<Rightarrow> Inr (first, second, s2)))"

section \<open>Concrete configurations\<close>

text \<open>
  The graph of the specification's end-to-end scenarios, \<^verbatim>\<open>{A: {to: [B]}, B: {to: []}}\<close>
  with a second destination added, and an engine configuration with no callback.
\<close>

definition scenario_graph :: Transitions where
  "scenario_graph = [(''A'', [''B'', ''C'']), (''B'', []), (''C'', [''A''])]"

definition bare_config :: "(unit, unit, unit) StateMachineConfig" where
  "bare_config =
     \<lparr>transitions = scenario_graph, onTransitionStart = None, onTransitionEnd = None, onError = None\<rparr>"

text \<open>
  Engine configurations whose callbacks record themselves: the world is a counter, the
  guard answers what it is told to, and no callback raises.
\<close>

definition recording_config :: "guard_result \<Rightarrow> (unit, string, nat) StateMachineConfig" where
  "recording_config answer =
     \<lparr>transitions = scenario_graph,
      onTransitionStart = Some (\<lambda>fromState toState d w. (Inr answer, [''guard''], w + 1)),
      onTransitionEnd = Some (\<lambda>fromState toState d w. (Inr (), [''end''], w + 10)),
      onError = Some (\<lambda>fromState toState message w. (Inr (), [''error''], w + 100))\<rparr>"

definition end_only_config :: "(unit, string, nat) StateMachineConfig" where
  "end_only_config =
     \<lparr>transitions = scenario_graph,
      onTransitionStart = None,
      onTransitionEnd = Some (\<lambda>fromState toState d w. (Inr (), [''end''], w + 10)),
      onError = None\<rparr>"

definition guard_only_config :: "guard_result \<Rightarrow> (unit, string, nat) StateMachineConfig" where
  "guard_only_config answer =
     \<lparr>transitions = scenario_graph,
      onTransitionStart = Some (\<lambda>fromState toState d w. (Inr answer, [''guard''], w + 1)),
      onTransitionEnd = None,
      onError = None\<rparr>"

text \<open>
  For the adapter: a fragment of the order process as graph, an order, a world whose
  clock reads 5, services that each return a promise and take one tick of the clock to
  settle, and hooks that are absent, that raise, that veto, and that return a promise
  whose effect (setting the external state to 1) happens when the promise settles.
\<close>

definition order_graph :: Transitions where
  "order_graph =
     [(''AddingItems'', [''ArrangingPayment'']),
      (''ArrangingPayment'', [''PaymentAuthorized'', ''PaymentSettled'', ''AddingItems'']),
      (''PaymentAuthorized'', [''PaymentSettled'', ''Cancelled'']),
      (''PaymentSettled'', [''Cancelled'']),
      (''Cancelled'', [])]"

definition an_order :: "state \<Rightarrow> nat list \<Rightarrow> nat option \<Rightarrow> Order" where
  "an_order st ls c =
     \<lparr>order_id = 7, state = st, lines = ls, customer = c, active = True, orderPlacedAt = None\<rparr>"

definition a_world :: "Order \<Rightarrow> nat world" where
  "a_world ord = \<lparr>order = ord, clock = 5, ext = 0\<rparr>"

definition tick :: "(unit, nat world) callback" where
  "tick = (\<lambda>w. (Inr (Promise (\<lambda>w1. (Inr (), w1\<lparr>clock := clock w1 + 1\<rparr>))), w))"

definition ticking_services :: "(unit, nat) services" where
  "ticking_services =
     \<lparr>createSalesForOrder = tick, addPromotionsToOrder = tick,
      createHistoryEntryForOrder = (\<lambda>orderId ctx fromState toState. tick)\<rparr>"

definition no_strategy :: "(unit, nat) OrderProcessStrategy" where
  "no_strategy =
     \<lparr>strategy_onTransitionStart = None, strategy_onTransitionEnd = None,
      strategy_onTransitionError = None\<rparr>"

definition no_process :: "(unit, nat) OrderProcessOptions" where
  "no_process =
     \<lparr>process_onTransitionStart = None, process_onTransitionEnd = None,
      process_onTransitionError = None\<rparr>"

definition set_ext_later :: "(unit, nat world) callback" where
  "set_ext_later = (\<lambda>w. (Inr (Promise (\<lambda>w1. (Inr (), w1\<lparr>ext := 1\<rparr>))), w))"

definition async_end_process :: "(unit, nat) OrderProcessOptions" where
  "async_end_process = no_process\<lparr>process_onTransitionEnd := Some (\<lambda>fromState toState d. set_ext_later)\<rparr>"

definition async_end_strategy :: "(unit, nat) OrderProcessStrategy" where
  "async_end_strategy = no_strategy\<lparr>strategy_onTransitionEnd := Some (\<lambda>fromState toState d. set_ext_later)\<rparr>"

definition throwing_strategy :: "(unit, nat) OrderProcessStrategy" where
  "throwing_strategy =
     no_strategy\<lparr>strategy_onTransitionError :=
       Some (\<lambda>fromState toState message w. (Inl (Thrown ''boom''), w))\<rparr>"

definition vetoing_strategy :: "(unit, nat) OrderProcessStrategy" where
  "vetoing_strategy =
     \<lparr>strategy_onTransitionStart = Some (\<lambda>fromState toState d w. (Inr (Plain (ResString ''not today'')), w)),
      strategy_onTransitionEnd = None,
      strategy_onTransitionError = Some (\<lambda>fromState toState message. set_ext_later)\<rparr>"

definition allowing_process :: "(unit, nat) OrderProcessOptions" where
  "allowing_process =
     \<lparr>process_onTransitionStart = Some (\<lambda>fromState toState d w. (Inr (Plain (ResBool True)), w\<lparr>ext := 2\<rparr>)),
      process_onTransitionEnd = None,
      process_onTransitionError = Some (\<lambda>fromState toState message. set_ext_later)\<rparr>"

text \<open>
  A store with the base graph \<^verbatim>\<open>{S: {to: [Y]}}\<close> at reference 0 and the override
  \<^verbatim>\<open>{S: {to: [X]}, N: {to: [A]}}\<close> at reference 1, every entry an object of
  its own; and the store that one build with them leaves.
\<close>

definition a_store :: store where
  "a_store =
     \<lparr>properties = (\<lambda>r. [])(0 := [(''S'', 10)], 1 := [(''S'', 11), (''N'', 12)]),
      prototype = (\<lambda>r. None),
      to_field = (\<lambda>r. [])(10 := [''Y''], 11 := [''X''], 12 := [''A''])\<rparr>"




section \<open>The engine's queries\<close>

lemma indexOf_found: "(- 1 < indexOf xs x) = (x \<in> set xs)"
  by (simp add: indexOf_def)

lemma canTransitionTo_member:
  "map_of (transitions cfg) (currentState fsm) = Some ds \<Longrightarrow>
   canTransitionTo cfg fsm st = Inr (st \<in> set ds)"
  by (simp add: canTransitionTo_def indexOf_found)

text \<open>
  Claim C9. In a graph that has an entry for the current state, \<^verbatim>\<open>canTransitionTo\<close>
  answers whether the target is in that entry's destination list, and
  \<^verbatim>\<open>getNextStates\<close> returns that list as it is declared. Both are functions of the
  configuration and the engine alone: they take no world and return none, so they
  perform no action and change no state.
\<close>

theorem canTransitionTo_getNextStates:
  assumes "map_of (transitions cfg) (currentState fsm) = Some ds"
  shows "canTransitionTo cfg fsm st = Inr (st \<in> set ds) \<and> getNextStates cfg fsm = Inr ds"
  using assms by (simp add: canTransitionTo_def indexOf_found getNextStates_def)

theorem canTransitionTo_getNextStates_witness:
  "map_of (transitions bare_config) (currentState (new_FSM ''A'')) = Some [''B'', ''C'']
   \<and> canTransitionTo bare_config (new_FSM ''A'') ''C'' = Inr True
   \<and> canTransitionTo bare_config (new_FSM ''C'') ''B'' = Inr False
   \<and> getNextStates bare_config (new_FSM ''A'') = Inr [''B'', ''C'']"
proof -
  have a: "map_of (transitions bare_config) (currentState (new_FSM ''A'')) = Some [''B'', ''C'']"
    by (simp add: bare_config_def scenario_graph_def new_FSM_def)
  have c: "map_of (transitions bare_config) (currentState (new_FSM ''C'')) = Some [''A'']"
    by (simp add: bare_config_def scenario_graph_def new_FSM_def)
  show ?thesis
    using a canTransitionTo_getNextStates [OF a, of "''C''"]
      canTransitionTo_getNextStates [OF c, of "''B''"]
    by simp
qed

section \<open>The engine's transitionTo\<close>

text \<open>Counting in a trace: what the client emits is told apart from the engine's own actions.\<close>

lemma Client_mem: "(Client x \<in> set (map Client es)) = (x \<in> set es)"
  by auto

lemma count_Client: "count_list (map Client es) (Client x) = count_list es x"
  by (induction es) auto

lemma count_Client_engine [simp]:
  "count_list (map Client es) (GuardInvoked a b) = 0"
  "count_list (map Client es) (Committed a) = 0"
  "count_list (map Client es) (EndInvoked a b) = 0"
  "count_list (map Client es) (ErrorInvoked a b m) = 0"
  by (induction es) auto

lemma FSM_onError_None:
  "onError cfg = None \<Longrightarrow> FSM_onError cfg f t m (fsm, w) = (Inr (), [ErrorInvoked f t m], (fsm, w))"
  by (simp add: FSM_onError_def bind_def emit_def return_def)

lemma FSM_onError_Some:
  "onError cfg = Some h \<Longrightarrow> h f t m w = (r, es, w') \<Longrightarrow>
   FSM_onError cfg f t m (fsm, w) = (r, ErrorInvoked f t m # map Client es, (fsm, w'))"
  by (cases r) (simp_all add: FSM_onError_def bind_def emit_def client_def)

lemma FSM_onError_outcome:
  "\<exists>r es w'. FSM_onError cfg f t m (fsm, w) = (r, ErrorInvoked f t m # map Client es, (fsm, w'))
     \<and> (case onError cfg of
           None \<Rightarrow> r = Inr () \<and> es = [] \<and> w' = w
         | Some h \<Rightarrow> h f t m w = (r, es, w'))"
proof (cases "onError cfg")
  case None
  then show ?thesis by (simp add: FSM_onError_None)
next
  case (Some h)
  obtain r es w' where "h f t m w = (r, es, w')" by (cases "h f t m w") auto
  with Some show ?thesis by (auto simp: FSM_onError_Some)
qed

lemma transitionTo_unreachable:
  "map_of (transitions cfg) (currentState fsm) = Some ds \<Longrightarrow> st \<notin> set ds \<Longrightarrow>
   transitionTo cfg st d (fsm, w) = FSM_onError cfg (currentState fsm) st None (fsm, w)"
  by (simp add: transitionTo_def bind_def check_canTransitionTo_def canTransitionTo_member
      get_currentState_def split: prod.splits sum.splits)

lemma transitionTo_guard:
  assumes "map_of (transitions cfg) (currentState fsm) = Some ds" "st \<in> set ds"
    "onTransitionStart cfg = Some g" "g (currentState fsm) st d w = (gr, ges, w1)"
  shows "transitionTo cfg st d (fsm, w) =
    (case gr of
       Inl e \<Rightarrow> (Inl e, GuardInvoked (currentState fsm) st # map Client ges, (fsm, w1))
     | Inr (ResBool False) \<Rightarrow>
         (case FSM_onError cfg (currentState fsm) st None (fsm, w1) of
            (r, es, s) \<Rightarrow> (r, GuardInvoked (currentState fsm) st # map Client ges @ es, s))
     | Inr (ResString m) \<Rightarrow>
         (case FSM_onError cfg (currentState fsm) st (Some m) (fsm, w1) of
            (r, es, s) \<Rightarrow> (r, GuardInvoked (currentState fsm) st # map Client ges @ es, s))
     | Inr _ \<Rightarrow>
         (case onTransitionEnd cfg of
            None \<Rightarrow> (Inr (), GuardInvoked (currentState fsm) st # map Client ges @ [Committed st],
                      (fsm\<lparr>currentState := st\<rparr>, w1))
          | Some h \<Rightarrow>
              (case h (currentState fsm) st d w1 of
                 (r, es, w') \<Rightarrow>
                   (r, GuardInvoked (currentState fsm) st # map Client ges @
                       Committed st # EndInvoked (currentState fsm) st # map Client es,
                    (fsm\<lparr>currentState := st\<rparr>, w'))))) "
  using assms
  by (simp add: transitionTo_def bind_def check_canTransitionTo_def canTransitionTo_member
      get_currentState_def set_currentState_def emit_def client_def return_def
      split: prod.splits sum.splits guard_result.splits bool.splits option.splits)

lemma transitionTo_no_guard:
  assumes "map_of (transitions cfg) (currentState fsm) = Some ds" "st \<in> set ds"
    "onTransitionStart cfg = None"
  shows "transitionTo cfg st d (fsm, w) =
         (case onTransitionEnd cfg of
            None \<Rightarrow> (Inr (), [Committed st], (fsm\<lparr>currentState := st\<rparr>, w))
          | Some h \<Rightarrow>
              (case h (currentState fsm) st d w of
                 (r, es, w') \<Rightarrow>
                   (r, Committed st # EndInvoked (currentState fsm) st # map Client es,
                    (fsm\<lparr>currentState := st\<rparr>, w'))))"
  using assms
  by (simp add: transitionTo_def bind_def check_canTransitionTo_def canTransitionTo_member
      get_currentState_def set_currentState_def emit_def client_def return_def
      split: prod.splits sum.splits guard_result.splits bool.splits option.splits)

text \<open>
  Claim C4. From a current state that has an entry in the graph, \<^verbatim>\<open>transitionTo\<close>
  with a target outside the entry's destinations calls \<^verbatim>\<open>onError(currentState, state)\<close>
  with no message and does nothing else: the engine is unchanged, the trace holds that
  call and what the configured handler did, and with no handler configured the method
  returns normally with the world untouched. With the target among the destinations and
  a guard that resolves to \<^verbatim>\<open>false\<close>, the same happens after the guard, with no
  message; with a guard that resolves to a string, with that string. In all three the
  trace has no commit and no call of \<^verbatim>\<open>onTransitionEnd\<close>.
\<close>

theorem transitionTo_rejected:
  assumes "map_of (transitions cfg) (currentState fsm) = Some ds"
  shows
    "(st \<notin> set ds \<longrightarrow>
        (\<exists>r es w'.
           transitionTo cfg st d (fsm, w) =
             (r, ErrorInvoked (currentState fsm) st None # map Client es, (fsm, w'))
           \<and> (case onError cfg of
                 None \<Rightarrow> r = Inr () \<and> es = [] \<and> w' = w
               | Some h \<Rightarrow> h (currentState fsm) st None w = (r, es, w'))))
     \<and> (\<forall>g ges w1.
          st \<in> set ds \<and> onTransitionStart cfg = Some g
          \<and> g (currentState fsm) st d w = (Inr (ResBool False), ges, w1) \<longrightarrow>
          (\<exists>r es w'.
             transitionTo cfg st d (fsm, w) =
               (r, GuardInvoked (currentState fsm) st # map Client ges @
                   ErrorInvoked (currentState fsm) st None # map Client es, (fsm, w'))
             \<and> (case onError cfg of
                   None \<Rightarrow> r = Inr () \<and> es = [] \<and> w' = w1
                 | Some h \<Rightarrow> h (currentState fsm) st None w1 = (r, es, w'))))
     \<and> (\<forall>g message ges w1.
          st \<in> set ds \<and> onTransitionStart cfg = Some g
          \<and> g (currentState fsm) st d w = (Inr (ResString message), ges, w1) \<longrightarrow>
          (\<exists>r es w'.
             transitionTo cfg st d (fsm, w) =
               (r, GuardInvoked (currentState fsm) st # map Client ges @
                   ErrorInvoked (currentState fsm) st (Some message) # map Client es, (fsm, w'))
             \<and> (case onError cfg of
                   None \<Rightarrow> r = Inr () \<and> es = [] \<and> w' = w1
                 | Some h \<Rightarrow> h (currentState fsm) st (Some message) w1 = (r, es, w'))))"
proof (intro conjI allI impI)
  assume "st \<notin> set ds"
  with assms FSM_onError_outcome [of cfg "currentState fsm" st None fsm w]
  show "\<exists>r es w'.
           transitionTo cfg st d (fsm, w) =
             (r, ErrorInvoked (currentState fsm) st None # map Client es, (fsm, w'))
           \<and> (case onError cfg of
                 None \<Rightarrow> r = Inr () \<and> es = [] \<and> w' = w
               | Some h \<Rightarrow> h (currentState fsm) st None w = (r, es, w'))"
    by (simp add: transitionTo_unreachable)
next
  fix g ges w1
  assume h: "st \<in> set ds \<and> onTransitionStart cfg = Some g
          \<and> g (currentState fsm) st d w = (Inr (ResBool False), ges, w1)"
  obtain r es w' where o: "FSM_onError cfg (currentState fsm) st None (fsm, w1) =
      (r, ErrorInvoked (currentState fsm) st None # map Client es, (fsm, w'))"
    "(case onError cfg of None \<Rightarrow> r = Inr () \<and> es = [] \<and> w' = w1
      | Some h \<Rightarrow> h (currentState fsm) st None w1 = (r, es, w'))"
    using FSM_onError_outcome [of cfg "currentState fsm" st None fsm w1] by blast
  from h have "transitionTo cfg st d (fsm, w) =
      (r, GuardInvoked (currentState fsm) st # map Client ges @
          ErrorInvoked (currentState fsm) st None # map Client es, (fsm, w'))"
    using transitionTo_guard [OF assms, of st g d w "Inr (ResBool False)" ges w1] o(1) by simp
  with o(2) show "\<exists>r es w'.
             transitionTo cfg st d (fsm, w) =
               (r, GuardInvoked (currentState fsm) st # map Client ges @
                   ErrorInvoked (currentState fsm) st None # map Client es, (fsm, w'))
             \<and> (case onError cfg of
                   None \<Rightarrow> r = Inr () \<and> es = [] \<and> w' = w1
                 | Some h \<Rightarrow> h (currentState fsm) st None w1 = (r, es, w'))"
    by blast
next
  fix g message ges w1
  assume h: "st \<in> set ds \<and> onTransitionStart cfg = Some g
          \<and> g (currentState fsm) st d w = (Inr (ResString message), ges, w1)"
  obtain r es w' where o: "FSM_onError cfg (currentState fsm) st (Some message) (fsm, w1) =
      (r, ErrorInvoked (currentState fsm) st (Some message) # map Client es, (fsm, w'))"
    "(case onError cfg of None \<Rightarrow> r = Inr () \<and> es = [] \<and> w' = w1
      | Some h \<Rightarrow> h (currentState fsm) st (Some message) w1 = (r, es, w'))"
    using FSM_onError_outcome [of cfg "currentState fsm" st "Some message" fsm w1] by blast
  from h have "transitionTo cfg st d (fsm, w) =
      (r, GuardInvoked (currentState fsm) st # map Client ges @
          ErrorInvoked (currentState fsm) st (Some message) # map Client es, (fsm, w'))"
    using transitionTo_guard [OF assms, of st g d w "Inr (ResString message)" ges w1] o(1) by simp
  with o(2) show "\<exists>r es w'.
             transitionTo cfg st d (fsm, w) =
               (r, GuardInvoked (currentState fsm) st # map Client ges @
                   ErrorInvoked (currentState fsm) st (Some message) # map Client es, (fsm, w'))
             \<and> (case onError cfg of
                   None \<Rightarrow> r = Inr () \<and> es = [] \<and> w' = w1
                 | Some h \<Rightarrow> h (currentState fsm) st (Some message) w1 = (r, es, w'))"
    by blast
qed

theorem transitionTo_rejected_witness:
  "map_of (transitions bare_config) (currentState (new_FSM ''B'')) = Some []
   \<and> ''C'' \<notin> set ([] :: state list)
   \<and> transitionTo bare_config ''C'' () (new_FSM ''B'', ()) =
       (Inr (), [ErrorInvoked ''B'' ''C'' None], (new_FSM ''B'', ()))
   \<and> map_of (transitions (recording_config (ResBool False))) (currentState (new_FSM ''A'')) =
       Some [''B'', ''C'']
   \<and> ''B'' \<in> set [''B'', ''C'']
   \<and> transitionTo (recording_config (ResBool False)) ''B'' () (new_FSM ''A'', 0) =
       (Inr (), [GuardInvoked ''A'' ''B'', Client ''guard'', ErrorInvoked ''A'' ''B'' None,
                 Client ''error''], (new_FSM ''A'', 101))
   \<and> transitionTo (recording_config (ResString ''no'')) ''B'' () (new_FSM ''A'', 0) =
       (Inr (), [GuardInvoked ''A'' ''B'', Client ''guard'', ErrorInvoked ''A'' ''B'' (Some ''no''),
                 Client ''error''], (new_FSM ''A'', 101))"
proof -
  have b: "map_of (transitions bare_config) (currentState (new_FSM ''B'')) = Some []"
    by (simp add: bare_config_def scenario_graph_def new_FSM_def)
  have a: "map_of (transitions (recording_config answer)) (currentState (new_FSM ''A'')) =
      Some [''B'', ''C'']" for answer
    by (simp add: recording_config_def scenario_graph_def new_FSM_def)
  have e: "onError bare_config = None"
    by (simp add: bare_config_def)
  have g: "onTransitionStart (recording_config answer) =
      Some (\<lambda>fromState toState d w. (Inr answer, [''guard''], w + 1))"
    "onError (recording_config answer) =
      Some (\<lambda>fromState toState message w. (Inr (), [''error''], w + 100))" for answer
    by (simp_all add: recording_config_def)
  show ?thesis
    using b a [of "ResBool False"]
      transitionTo_rejected [OF b, where st = "''C''" and d = "()" and w = "()"]
      transitionTo_rejected [OF a, where st = "''B''" and d = "()" and w = "0::nat"
        and answer1 = "ResBool False"]
      transitionTo_rejected [OF a, where st = "''B''" and d = "()" and w = "0::nat"
        and answer1 = "ResString ''no''"]
    by (simp add: e g new_FSM_def)
qed

lemma transitionTo_proceeds:
  assumes "map_of (transitions cfg) (currentState fsm) = Some ds" and "st \<in> set ds"
    and "onTransitionStart cfg = None \<and> pre = [] \<and> w1 = w
         \<or> (\<exists>g gr ges. onTransitionStart cfg = Some g
               \<and> g (currentState fsm) st d w = (Inr gr, ges, w1)
               \<and> gr \<noteq> ResBool False \<and> (\<forall>m. gr \<noteq> ResString m)
               \<and> pre = GuardInvoked (currentState fsm) st # map Client ges)"
  shows "transitionTo cfg st d (fsm, w) =
     (case onTransitionEnd cfg of
        None \<Rightarrow> (Inr (), pre @ [Committed st], (fsm\<lparr>currentState := st\<rparr>, w1))
      | Some h \<Rightarrow>
          (case h (currentState fsm) st d w1 of
             (r, es, w') \<Rightarrow>
               (r, pre @ Committed st # EndInvoked (currentState fsm) st # map Client es,
                (fsm\<lparr>currentState := st\<rparr>, w'))))"
  using assms(3)
proof
  assume "onTransitionStart cfg = None \<and> pre = [] \<and> w1 = w"
  then have none: "onTransitionStart cfg = None" and "pre = []" and "w1 = w"
    by simp_all
  then show ?thesis
    using transitionTo_no_guard [OF assms(1,2) none, of d w]
    by (simp split: option.splits prod.splits)
next
  assume "\<exists>g gr ges. onTransitionStart cfg = Some g
               \<and> g (currentState fsm) st d w = (Inr gr, ges, w1)
               \<and> gr \<noteq> ResBool False \<and> (\<forall>m. gr \<noteq> ResString m)
               \<and> pre = GuardInvoked (currentState fsm) st # map Client ges"
  then obtain g gr ges where g: "onTransitionStart cfg = Some g"
    "g (currentState fsm) st d w = (Inr gr, ges, w1)"
    "gr \<noteq> ResBool False" "\<forall>m. gr \<noteq> ResString m"
    "pre = GuardInvoked (currentState fsm) st # map Client ges" by blast
  show ?thesis
    using transitionTo_guard [OF assms(1,2) g(1,2)] g(3,4,5)
    by (cases gr) (auto split: bool.splits option.splits)
qed

text \<open>
  Claim C6. A transition succeeds when the target is among the destinations of the
  current state and the guard, if one is configured, resolves to neither \<^verbatim>\<open>false\<close>
  nor a string. Then the engine's current state is the target, also when the end hook
  raises; with an end hook configured the trace is the guard's part, the commit, the call
  of \<^verbatim>\<open>onTransitionEnd\<close> with the state before the transition as \<^verbatim>\<open>fromState\<close>,
  and what that hook did, in this order, the commit and the call each occurring once;
  with none configured the trace ends with the commit and nothing is called.
\<close>

theorem transitionTo_success:
  assumes "map_of (transitions cfg) (currentState fsm) = Some ds" and "st \<in> set ds"
    and "onTransitionStart cfg = None \<and> pre = [] \<and> w1 = w
         \<or> (\<exists>g gr ges. onTransitionStart cfg = Some g
               \<and> g (currentState fsm) st d w = (Inr gr, ges, w1)
               \<and> gr \<noteq> ResBool False \<and> (\<forall>m. gr \<noteq> ResString m)
               \<and> pre = GuardInvoked (currentState fsm) st # map Client ges)"
  shows "\<exists>r es w' t.
           transitionTo cfg st d (fsm, w) = (r, t, (fsm\<lparr>currentState := st\<rparr>, w'))
           \<and> (case onTransitionEnd cfg of
                 None \<Rightarrow> r = Inr () \<and> es = [] \<and> w' = w1 \<and> t = pre @ [Committed st]
               | Some h \<Rightarrow> h (currentState fsm) st d w1 = (r, es, w')
                   \<and> t = pre @ Committed st # EndInvoked (currentState fsm) st # map Client es)
           \<and> count_list t (Committed st) = 1
           \<and> (\<forall>a b. count_list t (EndInvoked a b) =
                 (if onTransitionEnd cfg \<noteq> None \<and> a = currentState fsm \<and> b = st then 1 else 0))"
proof -
  have pre: "count_list pre (Committed x) = 0" "count_list pre (EndInvoked a b) = 0" for x a b
    using assms(3) by auto
  note run = transitionTo_proceeds [OF assms]
  show ?thesis
  proof (cases "onTransitionEnd cfg")
    case None
    with run pre show ?thesis by simp
  next
    case (Some h)
    obtain r es w' where h: "h (currentState fsm) st d w1 = (r, es, w')"
      by (cases "h (currentState fsm) st d w1") auto
    with Some run pre show ?thesis by simp
  qed
qed


theorem transitionTo_success_witness:
  "map_of (transitions (recording_config (ResBool True))) (currentState (new_FSM ''A'')) =
       Some [''B'', ''C'']
   \<and> ''B'' \<in> set [''B'', ''C'']
   \<and> transitionTo (recording_config (ResBool True)) ''B'' () (new_FSM ''A'', 0) =
       (Inr (), [GuardInvoked ''A'' ''B'', Client ''guard'', Committed ''B'', EndInvoked ''A'' ''B'',
                 Client ''end''], (\<lparr>initialState = ''A'', currentState = ''B''\<rparr>, 11))
   \<and> onTransitionStart end_only_config = None
   \<and> transitionTo end_only_config ''C'' () (new_FSM ''A'', 0) =
       (Inr (), [Committed ''C'', EndInvoked ''A'' ''C'', Client ''end''],
        (\<lparr>initialState = ''A'', currentState = ''C''\<rparr>, 10))
   \<and> onTransitionEnd bare_config = None
   \<and> transitionTo bare_config ''B'' () (new_FSM ''A'', ()) =
       (Inr (), [Committed ''B''], (\<lparr>initialState = ''A'', currentState = ''B''\<rparr>, ()))"
proof -
  let ?g = "\<lambda>(fromState :: state) (toState :: state) (d :: unit) (w :: nat).
      (Inr (ResBool True) :: error + guard_result, [''guard''], w + 1)"
  let ?h = "\<lambda>(fromState :: state) (toState :: state) (d :: unit) (w :: nat).
      (Inr () :: error + unit, [''end''], w + 10)"
  have a: "map_of (transitions (recording_config (ResBool True))) (currentState (new_FSM ''A'')) =
      Some [''B'', ''C'']"
    by (simp add: recording_config_def scenario_graph_def new_FSM_def)
  have a': "map_of (transitions end_only_config) (currentState (new_FSM ''A'')) = Some [''B'', ''C'']"
    by (simp add: end_only_config_def scenario_graph_def new_FSM_def)
  have a'': "map_of (transitions bare_config) (currentState (new_FSM ''A'')) = Some [''B'', ''C'']"
    by (simp add: bare_config_def scenario_graph_def new_FSM_def)
  have m: "''B'' \<in> set [''B'', ''C'']" "''C'' \<in> set [''B'', ''C'']"
    by simp_all
  have h: "onTransitionEnd (recording_config (ResBool True)) = Some ?h"
    "onTransitionEnd end_only_config = Some ?h" "onTransitionEnd bare_config = None"
    by (simp_all add: recording_config_def end_only_config_def bare_config_def)
  have n: "onTransitionStart end_only_config = None" "onTransitionStart bare_config = None"
    by (simp_all add: end_only_config_def bare_config_def)
  have g: "onTransitionStart (recording_config (ResBool True)) = None
         \<and> [GuardInvoked ''A'' ''B'', Client ''guard''] = [] \<and> (1::nat) = 0
         \<or> (\<exists>g gr ges. onTransitionStart (recording_config (ResBool True)) = Some g
               \<and> g (currentState (new_FSM ''A'')) ''B'' () 0 = (Inr gr, ges, 1)
               \<and> gr \<noteq> ResBool False \<and> (\<forall>m. gr \<noteq> ResString m)
               \<and> [GuardInvoked ''A'' ''B'', Client ''guard''] =
                   GuardInvoked (currentState (new_FSM ''A'')) ''B'' # map Client ges)"
    by (rule disjI2, rule exI [of _ ?g], rule exI [of _ "ResBool True"], rule exI [of _ "[''guard'']"])
      (simp add: recording_config_def new_FSM_def)
  have g': "onTransitionStart end_only_config = None \<and> ([] :: string fsm_event list) = [] \<and> (0::nat) = 0
         \<or> (\<exists>g gr ges. onTransitionStart end_only_config = Some g
               \<and> g (currentState (new_FSM ''A'')) ''C'' () 0 = (Inr gr, ges, 0)
               \<and> gr \<noteq> ResBool False \<and> (\<forall>m. gr \<noteq> ResString m)
               \<and> [] = GuardInvoked (currentState (new_FSM ''A'')) ''C'' # map Client ges)"
    by (simp add: n)
  have g'': "onTransitionStart bare_config = None \<and> ([] :: unit fsm_event list) = [] \<and> () = ()
         \<or> (\<exists>g gr ges. onTransitionStart bare_config = Some g
               \<and> g (currentState (new_FSM ''A'')) ''B'' () () = (Inr gr, ges, ())
               \<and> gr \<noteq> ResBool False \<and> (\<forall>m. gr \<noteq> ResString m)
               \<and> [] = GuardInvoked (currentState (new_FSM ''A'')) ''B'' # map Client ges)"
    by (simp add: n)
  show ?thesis
    using a m(1) n(1) h(3) transitionTo_success [OF a m(1) g] transitionTo_success [OF a' m(2) g']
      transitionTo_success [OF a'' m(1) g'']
    by (auto simp: new_FSM_def h)
qed

section \<open>The adapter's transition: the shape of every run\<close>

text \<open>
  The error wrapper of \<^verbatim>\<open>initConfig\<close> ends in a \<^verbatim>\<open>throw\<close>, so it raises
  whatever its hooks do. With that, a run of \<^verbatim>\<open>transition\<close> has one of six shapes.
\<close>

lemma initConfig_onError_raises:
  "\<exists>e es w'. initConfig_onError p s f t m w = (Inl e, es, w')"
  by (auto simp: initConfig_onError_def bind_def throw_def return_def await_call_def call_unawaited_def
      split: option.splits prod.splits sum.splits returned.splits)

lemma transition_initConfig_cases:
  assumes run: "transition (initConfig p s svc g) ctx st w = (r, t, w')"
  obtains
    (no_entry) "map_of g (state (order w)) = None" "r = Inl TypeError" "t = []" "w' = w"
  | (unreachable) ds e es where
      "map_of g (state (order w)) = Some ds" "st \<notin> set ds"
      "initConfig_onError p s (state (order w)) st None w = (Inl e, es, w')"
      "r = Inl e" "t = ErrorInvoked (state (order w)) st None # map Client es"
  | (guard_raised) ds e ges where
      "map_of g (state (order w)) = Some ds" "st \<in> set ds"
      "initConfig_onTransitionStart p s (state (order w)) st ctx w = (Inl e, ges, w')"
      "r = Inl e" "t = GuardInvoked (state (order w)) st # map Client ges"
  | (guard_rejected) ds gr ges w1 msg e es where
      "map_of g (state (order w)) = Some ds" "st \<in> set ds"
      "initConfig_onTransitionStart p s (state (order w)) st ctx w = (Inr gr, ges, w1)"
      "gr = ResBool False \<and> msg = None \<or> (\<exists>m. gr = ResString m \<and> msg = Some m)"
      "initConfig_onError p s (state (order w)) st msg w1 = (Inl e, es, w')"
      "r = Inl e"
      "t = GuardInvoked (state (order w)) st # map Client ges @
           ErrorInvoked (state (order w)) st msg # map Client es"
  | (end_raised) ds gr ges w1 e es where
      "map_of g (state (order w)) = Some ds" "st \<in> set ds"
      "initConfig_onTransitionStart p s (state (order w)) st ctx w = (Inr gr, ges, w1)"
      "gr \<noteq> ResBool False" "\<forall>m. gr \<noteq> ResString m"
      "initConfig_onTransitionEnd p s svc (state (order w)) st ctx w1 = (Inl e, es, w')"
      "r = Inl e"
      "t = GuardInvoked (state (order w)) st # map Client ges @
           Committed st # EndInvoked (state (order w)) st # map Client es"
  | (success) ds gr ges w1 es w2 where
      "map_of g (state (order w)) = Some ds" "st \<in> set ds"
      "initConfig_onTransitionStart p s (state (order w)) st ctx w = (Inr gr, ges, w1)"
      "gr \<noteq> ResBool False" "\<forall>m. gr \<noteq> ResString m"
      "initConfig_onTransitionEnd p s svc (state (order w)) st ctx w1 = (Inr (), es, w2)"
      "r = Inr ()"
      "t = GuardInvoked (state (order w)) st # map Client ges @
           Committed st # EndInvoked (state (order w)) st # map Client es @ [Client (SetState st)]"
      "w' = w2\<lparr>order := (order w2)\<lparr>state := st\<rparr>\<rparr>"
proof (cases "map_of g (state (order w))")
  case None
  then have "transitionTo (initConfig p s svc g) st ctx (new_FSM (state (order w)), w) =
      (Inl TypeError, [], (new_FSM (state (order w)), w))"
    by (simp add: transitionTo_def bind_def check_canTransitionTo_def canTransitionTo_def
        initConfig_def new_FSM_def)
  with run None show ?thesis
    by (intro no_entry) (auto simp: transition_def)
next
  case (Some ds)
  let ?cfg = "initConfig p s svc g"
  let ?fsm = "new_FSM (state (order w))"
  let ?cur = "state (order w)"
  have entry: "map_of (transitions ?cfg) (currentState ?fsm) = Some ds"
    using Some by (simp add: initConfig_def new_FSM_def)
  have cur: "currentState ?fsm = ?cur" by (simp add: new_FSM_def)
  have hooks: "onTransitionStart ?cfg = Some (initConfig_onTransitionStart p s)"
    "onTransitionEnd ?cfg = Some (initConfig_onTransitionEnd p s svc)"
    "onError ?cfg = Some (initConfig_onError p s)"
    by (simp_all add: initConfig_def)
  have err: "\<exists>e es w2. initConfig_onError p s ?cur st msg w1 = (Inl e, es, w2)
      \<and> FSM_onError ?cfg ?cur st msg (?fsm, w1) =
          (Inl e, ErrorInvoked ?cur st msg # map Client es, (?fsm, w2))" for msg w1
    using initConfig_onError_raises [of p s ?cur st msg w1] FSM_onError_Some [OF hooks(3)]
    by blast
  show ?thesis
  proof (cases "st \<in> set ds")
    case False
    obtain e es w2 where e: "initConfig_onError p s ?cur st None w = (Inl e, es, w2)"
      "FSM_onError ?cfg ?cur st None (?fsm, w) =
          (Inl e, ErrorInvoked ?cur st None # map Client es, (?fsm, w2))"
      using err by blast
    have "transitionTo ?cfg st ctx (?fsm, w) =
        (Inl e, ErrorInvoked ?cur st None # map Client es, (?fsm, w2))"
      using transitionTo_unreachable [OF entry False] e(2) cur by simp
    with run e(1) Some False show ?thesis
      by (intro unreachable [of ds e es]) (auto simp: transition_def)
  next
    case True
    obtain gres ges w1 where gd: "initConfig_onTransitionStart p s ?cur st ctx w = (gres, ges, w1)"
      by (cases "initConfig_onTransitionStart p s ?cur st ctx w") auto
    note tg = transitionTo_guard [OF entry True hooks(1), of ctx w gres ges w1, unfolded cur, OF gd]
    show ?thesis
    proof (cases gres)
      case (Inl e)
      with tg run gd Some True show ?thesis
        by (intro guard_raised [of ds e ges]) (auto simp: transition_def)
    next
      case (Inr gr)
      consider (f) "gr = ResBool False" | (s) m where "gr = ResString m"
        | (ok) "gr \<noteq> ResBool False" "\<forall>m. gr \<noteq> ResString m"
        by blast
      then show ?thesis
      proof cases
        case f
        obtain e es w2 where e: "initConfig_onError p s ?cur st None w1 = (Inl e, es, w2)"
          "FSM_onError ?cfg ?cur st None (?fsm, w1) =
            (Inl e, ErrorInvoked ?cur st None # map Client es, (?fsm, w2))"
          using err by blast
        with tg run gd Some True Inr f show ?thesis
          by (intro guard_rejected [of ds gr ges w1 None e es]) (auto simp: transition_def)
      next
        case (s m)
        obtain e es w2 where e: "initConfig_onError p s ?cur st (Some m) w1 = (Inl e, es, w2)"
          "FSM_onError ?cfg ?cur st (Some m) (?fsm, w1) =
            (Inl e, ErrorInvoked ?cur st (Some m) # map Client es, (?fsm, w2))"
          using err by blast
        with tg run gd Some True Inr s show ?thesis
          by (intro guard_rejected [of ds gr ges w1 "Some m" e es]) (auto simp: transition_def)
      next
        case ok
        obtain r2 es w2 where en: "initConfig_onTransitionEnd p s svc ?cur st ctx w1 = (r2, es, w2)"
          by (cases "initConfig_onTransitionEnd p s svc ?cur st ctx w1") auto
        have tt: "transitionTo ?cfg st ctx (?fsm, w) =
            (r2, GuardInvoked ?cur st # map Client ges @ Committed st # EndInvoked ?cur st # map Client es,
             (?fsm\<lparr>currentState := st\<rparr>, w2))"
          using tg Inr ok en hooks(2) by (cases gr) (auto split: bool.splits)
        show ?thesis
        proof (cases r2)
          case (Inl e)
          with tt run gd Some True Inr ok en show ?thesis
            by (intro end_raised [of ds gr ges w1 e es]) (auto simp: transition_def)
        next
          case (Inr u)
          with tt run gd Some True \<open>gres = Inr gr\<close> ok en show ?thesis
            by (intro success [of ds gr ges w1 es w2]) (auto simp: transition_def)
        qed
      qed
    qed
  qed
qed


text \<open>What the wrappers can emit: no write of the entity's state is among it.\<close>

lemma await_call_events:
  "await_call c f w = (r, es, w') \<Longrightarrow> es = Called c # (case r of Inl _ \<Rightarrow> [] | Inr _ \<Rightarrow> [Completed c])"
  by (auto simp: await_call_def split: prod.splits sum.splits)

lemma call_unawaited_events:
  "call_unawaited c f w = (r, es, w') \<Longrightarrow>
   es = [Called c] \<and> isl r \<or> r = Inr () \<and> (es = [Called c, Completed c] \<or> es = [Called c, Pending c])"
  by (auto simp: call_unawaited_def split: prod.splits sum.splits returned.splits)

lemma bind_cases:
  assumes "bind m f w = (r, es, w')"
  obtains (raised) e where "m w = (Inl e, es, w')" "r = Inl e"
  | (went_on) a es1 w1 es2 where "m w = (Inr a, es1, w1)" "f a w1 = (r, es2, w')" "es = es1 @ es2"
  using assms by (auto simp: bind_def split: prod.splits sum.splits)

lemma onError_events:
  "initConfig_onError p s f t m w = (r, es, w') \<Longrightarrow> SetState x \<notin> set es"
  by (auto simp: initConfig_onError_def throw_def return_def elim!: bind_cases
      dest!: await_call_events call_unawaited_events split: option.splits sum.splits)

lemma onTransitionStart_events:
  "initConfig_onTransitionStart p s f t d w = (r, es, w') \<Longrightarrow> SetState x \<notin> set es"
  by (auto simp: initConfig_onTransitionStart_def OrderStateMachine_onTransitionStart_def
      get_order_def throw_def return_def elim!: bind_cases
      dest!: await_call_events call_unawaited_events
      split: option.splits sum.splits guard_result.splits bool.splits if_splits)

lemma builtin_end_events:
  "OrderStateMachine_onTransitionEnd svc f t d w = (r, es, w') \<Longrightarrow> SetState x \<notin> set es"
  by (auto simp: OrderStateMachine_onTransitionEnd_def
      get_order_def throw_def return_def set_active_def stamp_orderPlacedAt_def elim!: bind_cases
      dest!: await_call_events call_unawaited_events
      split: option.splits sum.splits if_splits)

lemma onTransitionEnd_events:
  "initConfig_onTransitionEnd p s svc f t d w = (r, es, w') \<Longrightarrow> SetState x \<notin> set es"
  by (auto simp: initConfig_onTransitionEnd_def return_def elim!: bind_cases
      dest!: await_call_events call_unawaited_events builtin_end_events
      split: option.splits sum.splits if_splits)


text \<open>Unfolding everything evaluates a run on a concrete configuration.\<close>

lemmas run_defs = transition_def transitionTo_def bind_def check_canTransitionTo_def canTransitionTo_def indexOf_def
      get_currentState_def set_currentState_def emit_def client_def return_def throw_def FSM_onError_def new_FSM_def
      initConfig_def initConfig_onTransitionStart_def initConfig_onTransitionEnd_def initConfig_onError_def
      OrderStateMachine_onTransitionStart_def OrderStateMachine_onTransitionEnd_def
      await_call_def call_unawaited_def settle_def get_order_def set_active_def stamp_orderPlacedAt_def
      message_or_default_def

text \<open>The error wrapper, by the hook that is configured.\<close>

lemma onError_strategy:
  assumes "strategy_onTransitionError s = Some h"
  shows "initConfig_onError p s f t m w =
     (case settle (h f t m) w of
        (Inl e, w1) \<Rightarrow> (Inl e, [Called (StrategyOnTransitionError f t m)], w1)
      | (Inr u, w1) \<Rightarrow>
          (Inl (IllegalOperationError (message_or_default m) f t),
           [Called (StrategyOnTransitionError f t m), Completed (StrategyOnTransitionError f t m)], w1))"
proof -
  obtain res w1 where st: "settle (h f t m) w = (res, w1)"
    by (cases "settle (h f t m) w") auto
  show ?thesis
    using assms st by (cases res) (simp_all add: initConfig_onError_def bind_def await_call_def throw_def)
qed

lemma onError_process:
  assumes "strategy_onTransitionError s = None" "process_onTransitionError p = Some h"
  shows "initConfig_onError p s f t m w =
     (case h f t m w of
        (Inl e, w1) \<Rightarrow> (Inl e, [Called (ProcessOnTransitionError f t m)], w1)
      | (Inr v, w1) \<Rightarrow>
          (Inl (IllegalOperationError (message_or_default m) f t),
           [Called (ProcessOnTransitionError f t m),
            case v of Plain u \<Rightarrow> Completed (ProcessOnTransitionError f t m)
                    | Promise q \<Rightarrow> Pending (ProcessOnTransitionError f t m)], w1))"
proof -
  obtain res w1 where st: "h f t m w = (res, w1)"
    by (cases "h f t m w") auto
  show ?thesis
  proof (cases res)
    case (Inl e)
    with assms st show ?thesis
      by (simp add: initConfig_onError_def bind_def call_unawaited_def throw_def)
  next
    case (Inr v)
    with assms st show ?thesis
      by (cases v) (simp_all add: initConfig_onError_def bind_def call_unawaited_def throw_def)
  qed
qed

lemma onError_none:
  assumes "strategy_onTransitionError s = None" "process_onTransitionError p = None"
  shows "initConfig_onError p s f t m w =
     (Inl (IllegalOperationError (message_or_default m) f t), [], w)"
  using assms by (simp add: initConfig_onError_def bind_def return_def throw_def)

lemma engine_rejection_returns:
  assumes "onError cfg = None" "map_of (transitions cfg) (currentState fsm) = Some ds"
    and "st \<notin> set ds
         \<or> (\<exists>gd ges w1 gr. onTransitionStart cfg = Some gd
              \<and> gd (currentState fsm) st d w = (Inr gr, ges, w1)
              \<and> (gr = ResBool False \<or> (\<exists>x. gr = ResString x)))"
  shows "fst (transitionTo cfg st d (fsm, w)) = Inr ()"
proof (cases "st \<in> set ds")
  case False
  with assms show ?thesis
    by (simp add: transitionTo_unreachable FSM_onError_None)
next
  case True
  with assms(3) obtain gd ges w1 gr where g: "onTransitionStart cfg = Some gd"
    "gd (currentState fsm) st d w = (Inr gr, ges, w1)" "gr = ResBool False \<or> (\<exists>x. gr = ResString x)"
    by blast
  show ?thesis
    using transitionTo_guard [OF assms(2) True g(1,2)] g(3) assms(1)
    by (auto simp: FSM_onError_None)
qed

section \<open>The adapter's write of the entity's state\<close>

text \<open>
  Claim C1. In every run of the adapter's \<^verbatim>\<open>transition\<close>: the only state the adapter
  writes to the entity is the target, and it writes it only in a run in which the engine
  committed the target and which returns normally. A run in which the engine routed a
  rejection to \<^verbatim>\<open>onError\<close> raises (the adapter's wrapper never returns normally),
  commits nothing and writes no state to the entity; when no external guard or error hook
  is configured, such a run leaves the whole world as it was. A run that returns normally
  has written the target.
\<close>

theorem transition_writes_state_only_after_commit:
  assumes "transition (initConfig p s svc g) ctx st w = (r, t, w')"
  shows "(\<forall>x. Client (SetState x) \<in> set t \<longrightarrow> x = st \<and> Committed st \<in> set t \<and> r = Inr ())
       \<and> ((\<exists>f x m. ErrorInvoked f x m \<in> set t) \<longrightarrow>
            (\<exists>e. r = Inl e) \<and> (\<forall>x. Client (SetState x) \<notin> set t) \<and> (\<forall>x. Committed x \<notin> set t))
       \<and> (r = Inr () \<longrightarrow> Client (SetState st) \<in> set t \<and> state (order w') = st)
       \<and> (strategy_onTransitionStart s = None \<and> process_onTransitionStart p = None
          \<and> strategy_onTransitionError s = None \<and> process_onTransitionError p = None
          \<and> (\<exists>f x m. ErrorInvoked f x m \<in> set t) \<longrightarrow> w' = w)"
  using assms
proof (cases rule: transition_initConfig_cases)
  case no_entry
  then show ?thesis by simp
next
  case (unreachable ds e es)
  then show ?thesis
    using onError_events [OF unreachable(3)]
    by (auto simp: initConfig_onError_def bind_def return_def throw_def)
next
  case (guard_raised ds e ges)
  then show ?thesis
    using onTransitionStart_events [OF guard_raised(3)] by auto
next
  case (guard_rejected ds gr ges w1 msg e es)
  have "w' = w" if "strategy_onTransitionStart s = None" "process_onTransitionStart p = None"
    "strategy_onTransitionError s = None" "process_onTransitionError p = None"
    using that guard_rejected(3,5)
    by (auto simp: initConfig_onError_def initConfig_onTransitionStart_def
        OrderStateMachine_onTransitionStart_def get_order_def bind_def return_def throw_def
        split: if_splits)
  with guard_rejected show ?thesis
    using onTransitionStart_events [OF guard_rejected(3)] onError_events [OF guard_rejected(5)]
    by auto
next
  case (end_raised ds gr ges w1 e es)
  then show ?thesis
    using onTransitionStart_events [OF end_raised(3)] onTransitionEnd_events [OF end_raised(6)]
    by auto
next
  case (success ds gr ges w1 es w2)
  then show ?thesis
    using onTransitionStart_events [OF success(3)] onTransitionEnd_events [OF success(6)]
    by auto
qed


theorem transition_writes_state_only_after_commit_witness:
  "transition (initConfig no_process no_strategy ticking_services order_graph) () ''ArrangingPayment''
       (a_world (an_order ''AddingItems'' [1] (Some 3))) =
     (Inr (),
      [GuardInvoked ''AddingItems'' ''ArrangingPayment'', Committed ''ArrangingPayment'',
       EndInvoked ''AddingItems'' ''ArrangingPayment'',
       Client (Called (CreateHistoryEntryForOrder 7 ''AddingItems'' ''ArrangingPayment'')),
       Client (Completed (CreateHistoryEntryForOrder 7 ''AddingItems'' ''ArrangingPayment'')),
       Client (SetState ''ArrangingPayment'')],
      \<lparr>order = an_order ''ArrangingPayment'' [1] (Some 3), clock = 6, ext = 0\<rparr>)
   \<and> state (order \<lparr>order = an_order ''ArrangingPayment'' [1] (Some 3), clock = 6, ext = 0::nat\<rparr>) =
       ''ArrangingPayment''
   \<and> transition (initConfig no_process no_strategy ticking_services order_graph) () ''ArrangingPayment''
       (a_world (an_order ''AddingItems'' [] (Some 3))) =
     (Inl (IllegalOperationError ''error.cannot-transition-to-payment-when-order-is-empty''
             ''AddingItems'' ''ArrangingPayment''),
      [GuardInvoked ''AddingItems'' ''ArrangingPayment'',
       ErrorInvoked ''AddingItems'' ''ArrangingPayment''
         (Some ''error.cannot-transition-to-payment-when-order-is-empty'')],
      a_world (an_order ''AddingItems'' [] (Some 3)))
   \<and> strategy_onTransitionStart no_strategy = None \<and> process_onTransitionStart no_process = None
   \<and> strategy_onTransitionError no_strategy = None \<and> process_onTransitionError no_process = None"
proof -
  have ok: "transition (initConfig no_process no_strategy ticking_services order_graph) ()
       ''ArrangingPayment'' (a_world (an_order ''AddingItems'' [1] (Some 3))) =
     (Inr (),
      [GuardInvoked ''AddingItems'' ''ArrangingPayment'', Committed ''ArrangingPayment'',
       EndInvoked ''AddingItems'' ''ArrangingPayment'',
       Client (Called (CreateHistoryEntryForOrder 7 ''AddingItems'' ''ArrangingPayment'')),
       Client (Completed (CreateHistoryEntryForOrder 7 ''AddingItems'' ''ArrangingPayment'')),
       Client (SetState ''ArrangingPayment'')],
      \<lparr>order = an_order ''ArrangingPayment'' [1] (Some 3), clock = 6, ext = 0\<rparr>)"
    by (simp add: run_defs order_graph_def an_order_def a_world_def tick_def ticking_services_def
      no_strategy_def no_process_def)
  have rejected: "transition (initConfig no_process no_strategy ticking_services order_graph) ()
       ''ArrangingPayment'' (a_world (an_order ''AddingItems'' [] (Some 3))) =
     (Inl (IllegalOperationError ''error.cannot-transition-to-payment-when-order-is-empty''
             ''AddingItems'' ''ArrangingPayment''),
      [GuardInvoked ''AddingItems'' ''ArrangingPayment'',
       ErrorInvoked ''AddingItems'' ''ArrangingPayment''
         (Some ''error.cannot-transition-to-payment-when-order-is-empty'')],
      a_world (an_order ''AddingItems'' [] (Some 3)))"
    by (simp add: run_defs order_graph_def an_order_def a_world_def tick_def ticking_services_def
      no_strategy_def no_process_def)
  have none: "strategy_onTransitionStart no_strategy = None \<and> process_onTransitionStart no_process = None
   \<and> strategy_onTransitionError no_strategy = None \<and> process_onTransitionError no_process = None"
    by (simp add: no_strategy_def no_process_def)
  show ?thesis
    using transition_writes_state_only_after_commit [OF ok]
      transition_writes_state_only_after_commit [OF rejected] ok rejected none
    by simp
qed

section \<open>The composed guard\<close>

lemma builtin_start_value:
  "OrderStateMachine_onTransitionStart f t w =
     (Inr (if t = ''ArrangingPayment'' then
             if lines (order w) = [] then
               ResString ''error.cannot-transition-to-payment-when-order-is-empty''
             else if customer (order w) = None then
               ResString ''error.cannot-transition-to-payment-without-customer''
             else ResVoid
           else ResVoid), [], w)"
  by (simp add: OrderStateMachine_onTransitionStart_def get_order_def bind_def return_def)

lemma composed_guard_first:
  assumes "strategy_onTransitionStart s = Some g \<and> c = StrategyOnTransitionStart f t
         \<or> strategy_onTransitionStart s = None \<and> process_onTransitionStart p = Some g
            \<and> c = ProcessOnTransitionStart f t"
  shows "initConfig_onTransitionStart p s f t d w =
     (case settle (g f t d) w of
        (Inl e, w1) \<Rightarrow> (Inl e, [Called c], w1)
      | (Inr r, w1) \<Rightarrow>
          (if rejects r then Inr r
           else fst (OrderStateMachine_onTransitionStart f t w1),
           [Called c, Completed c], w1))"
proof -
  obtain res w1 where st: "settle (g f t d) w = (res, w1)"
    by (cases "settle (g f t d) w") auto
  obtain b where b: "OrderStateMachine_onTransitionStart f t w1 = (Inr b, [], w1)"
    using builtin_start_value by blast
  have first: "initConfig_onTransitionStart p s f t d w =
      bind (await_call c (g f t d))
        (\<lambda>resolvedResult.
           if rejects resolvedResult then return resolvedResult
           else OrderStateMachine_onTransitionStart f t) w"
    using assms by (auto simp: initConfig_onTransitionStart_def)
  show ?thesis
  proof (cases res)
    case (Inl e)
    with st show ?thesis by (simp add: first bind_def await_call_def)
  next
    case (Inr r)
    with st b show ?thesis by (simp add: first bind_def await_call_def return_def)
  qed
qed

lemma composed_guard_none:
  assumes "strategy_onTransitionStart s = None" "process_onTransitionStart p = None"
  shows "initConfig_onTransitionStart p s f t d w = OrderStateMachine_onTransitionStart f t w"
  using assms
  by (auto simp: initConfig_onTransitionStart_def bind_def return_def builtin_start_value)



text \<open>
  Claim C5, as the code has it. The composed \<^verbatim>\<open>onTransitionStart\<close> calls the
  strategy's guard if there is one, otherwise the guard of the process options if there
  is one, and awaits it; the other guard is not called. A raise of that guard is the
  result. When its resolved value is \<^verbatim>\<open>false\<close> or a string, that value is the
  result and the built-in rule does not run; otherwise, and when no guard is configured,
  the result is the built-in rule's, on the order as the guard left it. For a transition
  into ArrangingPayment the built-in rule answers
  \<^verbatim>\<open>error.cannot-transition-to-payment-when-order-is-empty\<close> for an order with no
  lines, and \<^verbatim>\<open>error.cannot-transition-to-payment-without-customer\<close> for an order
  with at least one line and no customer. When the composed guard answers a string, the
  adapter's \<^verbatim>\<open>transition\<close> raises and writes no state to the entity; with no error
  hook configured it raises the illegal-operation error with that message and leaves the
  world as the guard left it.
\<close>

theorem composed_onTransitionStart:
  "(\<forall>g c. (strategy_onTransitionStart s = Some g \<and> c = StrategyOnTransitionStart f t
           \<or> strategy_onTransitionStart s = None \<and> process_onTransitionStart p = Some g
              \<and> c = ProcessOnTransitionStart f t) \<longrightarrow>
      initConfig_onTransitionStart p s f t d w =
        (case settle (g f t d) w of
           (Inl e, w1) \<Rightarrow> (Inl e, [Called c], w1)
         | (Inr r, w1) \<Rightarrow>
             (if rejects r then Inr r
              else fst (OrderStateMachine_onTransitionStart f t w1),
              [Called c, Completed c], w1)))
   \<and> (strategy_onTransitionStart s = None \<and> process_onTransitionStart p = None \<longrightarrow>
        initConfig_onTransitionStart p s f t d w = OrderStateMachine_onTransitionStart f t w)
   \<and> (lines (order w) = [] \<longrightarrow>
        OrderStateMachine_onTransitionStart f ''ArrangingPayment'' w =
          (Inr (ResString ''error.cannot-transition-to-payment-when-order-is-empty''), [], w))
   \<and> (lines (order w) \<noteq> [] \<and> customer (order w) = None \<longrightarrow>
        OrderStateMachine_onTransitionStart f ''ArrangingPayment'' w =
          (Inr (ResString ''error.cannot-transition-to-payment-without-customer''), [], w))
   \<and> (\<forall>ds m ges w1 r tr w'.
        map_of g (state (order w)) = Some ds \<and> t \<in> set ds
        \<and> f = state (order w)
        \<and> initConfig_onTransitionStart p s f t d w = (Inr (ResString m), ges, w1)
        \<and> transition (initConfig p s svc g) d t w = (r, tr, w') \<longrightarrow>
        (\<exists>e es. initConfig_onError p s f t (Some m) w1 = (Inl e, es, w') \<and> r = Inl e
           \<and> tr = GuardInvoked f t # map Client ges @ ErrorInvoked f t (Some m) # map Client es)
        \<and> (\<forall>x. Client (SetState x) \<notin> set tr)
        \<and> (strategy_onTransitionError s = None \<and> process_onTransitionError p = None \<longrightarrow>
             r = Inl (IllegalOperationError (message_or_default (Some m)) f t) \<and> w' = w1))"
proof (intro conjI allI impI)
  fix ga c
  assume "strategy_onTransitionStart s = Some ga \<and> c = StrategyOnTransitionStart f t
           \<or> strategy_onTransitionStart s = None \<and> process_onTransitionStart p = Some ga
              \<and> c = ProcessOnTransitionStart f t"
  then show "initConfig_onTransitionStart p s f t d w =
        (case settle (ga f t d) w of
           (Inl e, w1) \<Rightarrow> (Inl e, [Called c], w1)
         | (Inr r, w1) \<Rightarrow>
             (if rejects r then Inr r
              else fst (OrderStateMachine_onTransitionStart f t w1),
              [Called c, Completed c], w1))"
    by (rule composed_guard_first)
next
  assume "strategy_onTransitionStart s = None \<and> process_onTransitionStart p = None"
  then show "initConfig_onTransitionStart p s f t d w = OrderStateMachine_onTransitionStart f t w"
    by (simp add: composed_guard_none)
next
  assume "lines (order w) = []"
  then show "OrderStateMachine_onTransitionStart f ''ArrangingPayment'' w =
          (Inr (ResString ''error.cannot-transition-to-payment-when-order-is-empty''), [], w)"
    by (simp add: builtin_start_value)
next
  assume "lines (order w) \<noteq> [] \<and> customer (order w) = None"
  then show "OrderStateMachine_onTransitionStart f ''ArrangingPayment'' w =
          (Inr (ResString ''error.cannot-transition-to-payment-without-customer''), [], w)"
    by (simp add: builtin_start_value)
next
  fix ds m ges w1 r tr w'
  assume a: "map_of g (state (order w)) = Some ds \<and> t \<in> set ds
        \<and> f = state (order w)
        \<and> initConfig_onTransitionStart p s f t d w = (Inr (ResString m), ges, w1)
        \<and> transition (initConfig p s svc g) d t w = (r, tr, w')"
  then have run: "transition (initConfig p s svc g) d t w = (r, tr, w')" by simp
  from run have shape: "\<exists>e es. initConfig_onError p s f t (Some m) w1 = (Inl e, es, w') \<and> r = Inl e
           \<and> tr = GuardInvoked f t # map Client ges @ ErrorInvoked f t (Some m) # map Client es"
    using a by (cases rule: transition_initConfig_cases) auto
  then show "\<exists>e es. initConfig_onError p s f t (Some m) w1 = (Inl e, es, w') \<and> r = Inl e
           \<and> tr = GuardInvoked f t # map Client ges @ ErrorInvoked f t (Some m) # map Client es" .
  from shape a show "Client (SetState x) \<notin> set tr" for x
    using onTransitionStart_events [of p s f t d w "Inr (ResString m)" ges w1 x]
      onError_events [of p s f t "Some m" w1 _ _ w' x]
    by auto
  assume "strategy_onTransitionError s = None \<and> process_onTransitionError p = None"
  with shape show "r = Inl (IllegalOperationError (message_or_default (Some m)) f t)"
    by (auto simp: initConfig_onError_def bind_def return_def throw_def)
  assume "strategy_onTransitionError s = None \<and> process_onTransitionError p = None"
  with shape show "w' = w1"
    by (auto simp: initConfig_onError_def bind_def return_def throw_def)
qed


theorem composed_onTransitionStart_witness:
  "strategy_onTransitionStart vetoing_strategy =
       Some (\<lambda>fromState toState d w. (Inr (Plain (ResString ''not today'')), w))
   \<and> initConfig_onTransitionStart allowing_process vetoing_strategy ''AddingItems'' ''ArrangingPayment'' ()
       (a_world (an_order ''AddingItems'' [] None)) =
     (Inr (ResString ''not today''),
      [Called (StrategyOnTransitionStart ''AddingItems'' ''ArrangingPayment''),
       Completed (StrategyOnTransitionStart ''AddingItems'' ''ArrangingPayment'')],
      a_world (an_order ''AddingItems'' [] None))
   \<and> strategy_onTransitionStart no_strategy = None
   \<and> process_onTransitionStart allowing_process =
       Some (\<lambda>fromState toState d w. (Inr (Plain (ResBool True)), w\<lparr>ext := 2\<rparr>))
   \<and> initConfig_onTransitionStart allowing_process no_strategy ''AddingItems'' ''ArrangingPayment'' ()
       (a_world (an_order ''AddingItems'' [] (Some 3))) =
     (Inr (ResString ''error.cannot-transition-to-payment-when-order-is-empty''),
      [Called (ProcessOnTransitionStart ''AddingItems'' ''ArrangingPayment''),
       Completed (ProcessOnTransitionStart ''AddingItems'' ''ArrangingPayment'')],
      (a_world (an_order ''AddingItems'' [] (Some 3)))\<lparr>ext := 2\<rparr>)
   \<and> process_onTransitionStart no_process = None
   \<and> lines (order (a_world (an_order ''AddingItems'' [1] None))) \<noteq> []
   \<and> customer (order (a_world (an_order ''AddingItems'' [1] None))) = None
   \<and> initConfig_onTransitionStart no_process no_strategy ''AddingItems'' ''ArrangingPayment'' ()
       (a_world (an_order ''AddingItems'' [1] None)) =
     (Inr (ResString ''error.cannot-transition-to-payment-without-customer''), [], a_world (an_order ''AddingItems'' [1] None))
   \<and> lines (order (a_world (an_order ''AddingItems'' [] (Some 3)))) = []
   \<and> map_of order_graph (state (order (a_world (an_order ''AddingItems'' [] (Some 3))))) =
       Some [''ArrangingPayment'']
   \<and> transition (initConfig no_process no_strategy ticking_services order_graph) () ''ArrangingPayment''
       (a_world (an_order ''AddingItems'' [] (Some 3))) =
     (Inl (IllegalOperationError ''error.cannot-transition-to-payment-when-order-is-empty'' ''AddingItems'' ''ArrangingPayment''),
      [GuardInvoked ''AddingItems'' ''ArrangingPayment'',
       ErrorInvoked ''AddingItems'' ''ArrangingPayment'' (Some ''error.cannot-transition-to-payment-when-order-is-empty'')],
      a_world (an_order ''AddingItems'' [] (Some 3)))"
proof -
  let ?G = "\<lambda>(fromState :: state) (toState :: state) (d :: unit) (w :: nat world).
      (Inr (Plain (ResString ''not today'')) :: error + (guard_result, nat world) returned, w)"
  let ?H = "\<lambda>(fromState :: state) (toState :: state) (d :: unit) (w :: nat world).
      (Inr (Plain (ResBool True)) :: error + (guard_result, nat world) returned, w\<lparr>ext := 2\<rparr>)"
  let ?w0 = "a_world (an_order ''AddingItems'' [] None)"
  let ?w1 = "a_world (an_order ''AddingItems'' [] (Some 3))"
  let ?w2 = "a_world (an_order ''AddingItems'' [1] None)"
  have hooks: "strategy_onTransitionStart vetoing_strategy = Some ?G"
    "strategy_onTransitionStart no_strategy = None"
    "process_onTransitionStart allowing_process = Some ?H"
    "process_onTransitionStart no_process = None"
    "strategy_onTransitionError no_strategy = None"
    "process_onTransitionError no_process = None"
    by (simp_all add: order_graph_def an_order_def a_world_def tick_def ticking_services_def
      no_strategy_def no_process_def vetoing_strategy_def allowing_process_def)
  have orders: "lines (order ?w2) \<noteq> []" "customer (order ?w2) = None" "lines (order ?w1) = []"
    "map_of order_graph (state (order ?w1)) = Some [''ArrangingPayment'']"
    by (simp_all add: order_graph_def an_order_def a_world_def tick_def ticking_services_def
      no_strategy_def no_process_def)
  have strategy_first: "initConfig_onTransitionStart allowing_process vetoing_strategy
        ''AddingItems'' ''ArrangingPayment'' () ?w0 =
      (Inr (ResString ''not today''),
       [Called (StrategyOnTransitionStart ''AddingItems'' ''ArrangingPayment''),
        Completed (StrategyOnTransitionStart ''AddingItems'' ''ArrangingPayment'')], ?w0)"
    using composed_onTransitionStart [where s = vetoing_strategy and p = allowing_process
        and f = "''AddingItems''" and t = "''ArrangingPayment''" and d = "()" and w = ?w0,
        THEN conjunct1, rule_format,
        of ?G "StrategyOnTransitionStart ''AddingItems'' ''ArrangingPayment''"]
      hooks(1)
    by (simp add: settle_def)
  have process_next: "initConfig_onTransitionStart allowing_process no_strategy
        ''AddingItems'' ''ArrangingPayment'' () ?w1 =
      (Inr (ResString ''error.cannot-transition-to-payment-when-order-is-empty''),
       [Called (ProcessOnTransitionStart ''AddingItems'' ''ArrangingPayment''),
        Completed (ProcessOnTransitionStart ''AddingItems'' ''ArrangingPayment'')],
       ?w1\<lparr>ext := 2\<rparr>)"
    using composed_onTransitionStart [where s = no_strategy and p = allowing_process
        and f = "''AddingItems''" and t = "''ArrangingPayment''" and d = "()" and w = ?w1,
        THEN conjunct1, rule_format,
        of ?H "ProcessOnTransitionStart ''AddingItems'' ''ArrangingPayment''"]
      hooks(2,3)
    by (simp add: settle_def builtin_start_value order_graph_def an_order_def a_world_def tick_def ticking_services_def
      no_strategy_def no_process_def allowing_process_def)
  note none = composed_onTransitionStart [where s = no_strategy and p = no_process
        and f = "''AddingItems''" and t = "''ArrangingPayment''" and d = "()"]
  have builtin_only: "initConfig_onTransitionStart no_process no_strategy
        ''AddingItems'' ''ArrangingPayment'' () ?w2 = (Inr (ResString ''error.cannot-transition-to-payment-without-customer''), [], ?w2)"
    using none [where w = ?w2, THEN conjunct2, THEN conjunct1]
      none [where w = ?w2, THEN conjunct2, THEN conjunct2, THEN conjunct2, THEN conjunct1]
      hooks(2,4) orders(1,2)
    by simp
  have guard: "initConfig_onTransitionStart no_process no_strategy
        ''AddingItems'' ''ArrangingPayment'' () ?w1 = (Inr (ResString ''error.cannot-transition-to-payment-when-order-is-empty''), [], ?w1)"
    using none [where w = ?w1, THEN conjunct2, THEN conjunct1]
      none [where w = ?w1, THEN conjunct2, THEN conjunct2, THEN conjunct1]
      hooks(2,4) orders(3)
    by simp
  obtain r tr w' where run: "transition (initConfig no_process no_strategy ticking_services order_graph) ()
      ''ArrangingPayment'' ?w1 = (r, tr, w')"
    by (cases "transition (initConfig no_process no_strategy ticking_services order_graph) ()
      ''ArrangingPayment'' ?w1") auto
  have st: "''AddingItems'' = state (order ?w1)" "''ArrangingPayment'' \<in> set [''ArrangingPayment'']"
    by (simp_all add: order_graph_def an_order_def a_world_def tick_def ticking_services_def
      no_strategy_def no_process_def)
  note last = none [where w = ?w1 and g = order_graph and svc = ticking_services,
        THEN conjunct2, THEN conjunct2, THEN conjunct2, THEN conjunct2, rule_format,
        of "[''ArrangingPayment'']" "''error.cannot-transition-to-payment-when-order-is-empty''" "[]" ?w1 r tr w']
  have rejected: "(\<exists>e es. initConfig_onError no_process no_strategy ''AddingItems'' ''ArrangingPayment''
          (Some ''error.cannot-transition-to-payment-when-order-is-empty'') ?w1 = (Inl e, es, w') \<and> r = Inl e
        \<and> tr = GuardInvoked ''AddingItems'' ''ArrangingPayment'' # map Client [] @
               ErrorInvoked ''AddingItems'' ''ArrangingPayment'' (Some ''error.cannot-transition-to-payment-when-order-is-empty'') # map Client es)
      \<and> (\<forall>x. Client (SetState x) \<notin> set tr)
      \<and> (strategy_onTransitionError no_strategy = None \<and> process_onTransitionError no_process = None \<longrightarrow>
           r = Inl (IllegalOperationError (message_or_default (Some ''error.cannot-transition-to-payment-when-order-is-empty'')) ''AddingItems'' ''ArrangingPayment'')
           \<and> w' = ?w1)"
    using last orders(4) st guard run by blast
  then obtain e es where shape:
      "initConfig_onError no_process no_strategy ''AddingItems'' ''ArrangingPayment'' (Some ''error.cannot-transition-to-payment-when-order-is-empty'') ?w1 =
         (Inl e, es, w')"
      "tr = GuardInvoked ''AddingItems'' ''ArrangingPayment'' # map Client [] @
              ErrorInvoked ''AddingItems'' ''ArrangingPayment'' (Some ''error.cannot-transition-to-payment-when-order-is-empty'') # map Client es"
    and raised: "r = Inl (IllegalOperationError (message_or_default (Some ''error.cannot-transition-to-payment-when-order-is-empty''))
                   ''AddingItems'' ''ArrangingPayment'')" "w' = ?w1"
    using hooks(5,6) by blast
  have es: "es = []"
    using shape(1) onError_none [OF hooks(5,6), of "''AddingItems''" "''ArrangingPayment''" "Some ''error.cannot-transition-to-payment-when-order-is-empty''" ?w1]
    by simp
  have msg: "message_or_default (Some ''error.cannot-transition-to-payment-when-order-is-empty'') = ''error.cannot-transition-to-payment-when-order-is-empty''"
    by (simp add: message_or_default_def)
  have final: "transition (initConfig no_process no_strategy ticking_services order_graph) ()
      ''ArrangingPayment'' ?w1 =
     (Inl (IllegalOperationError ''error.cannot-transition-to-payment-when-order-is-empty'' ''AddingItems'' ''ArrangingPayment''),
      [GuardInvoked ''AddingItems'' ''ArrangingPayment'',
       ErrorInvoked ''AddingItems'' ''ArrangingPayment'' (Some ''error.cannot-transition-to-payment-when-order-is-empty'')], ?w1)"
    unfolding run raised shape(2) es msg by simp
  show ?thesis
    by (intro conjI hooks(1-4) orders strategy_first process_next builtin_only final)
qed

text \<open>
  Claim C5 as stated gives the second message to every order with no customer; an order
  with no customer and no lines gets the first.
\<close>

theorem builtin_rule_empty_order_without_customer:
  "customer (order (a_world (an_order ''AddingItems'' [] None))) = None
   \<and> OrderStateMachine_onTransitionStart ''AddingItems'' ''ArrangingPayment''
       (a_world (an_order ''AddingItems'' [] None)) =
     (Inr (ResString ''error.cannot-transition-to-payment-when-order-is-empty''), [], a_world (an_order ''AddingItems'' [] None))
   \<and> fst (OrderStateMachine_onTransitionStart ''AddingItems'' ''ArrangingPayment''
       (a_world (an_order ''AddingItems'' [] None))) \<noteq> Inr (ResString ''error.cannot-transition-to-payment-without-customer'')
   \<and> fst (transition (initConfig no_process no_strategy ticking_services order_graph) ()
       ''ArrangingPayment'' (a_world (an_order ''AddingItems'' [] None))) =
     Inl (IllegalOperationError ''error.cannot-transition-to-payment-when-order-is-empty'' ''AddingItems'' ''ArrangingPayment'')"
  by (simp add: run_defs order_graph_def an_order_def a_world_def tick_def ticking_services_def
      no_strategy_def no_process_def)

section \<open>The error wrapper\<close>

text \<open>
  Claim C7, as the code has it. The adapter's \<^verbatim>\<open>onError\<close> wrapper first calls the
  strategy's error hook if there is one (and awaits it), otherwise the error hook of the
  process options if there is one (and does not await it). When that hook raises, its
  error is what the wrapper raises. Otherwise, and when no hook is configured, the wrapper
  raises the illegal-operation error carrying the two states and the message it was given,
  or the default message \<^verbatim>\<open>error.cannot-transition-order-from-to\<close> when it was given
  none or the empty string. In every case the wrapper raises. The engine by itself does
  not: with no \<^verbatim>\<open>onError\<close> configured, a rejected \<^verbatim>\<open>transitionTo\<close> returns
  normally.
\<close>

theorem initConfig_onError_translation:
  "(\<forall>h. strategy_onTransitionError s = Some h \<longrightarrow>
      initConfig_onError p s f t m w =
        (case settle (h f t m) w of
           (Inl e, w1) \<Rightarrow> (Inl e, [Called (StrategyOnTransitionError f t m)], w1)
         | (Inr u, w1) \<Rightarrow>
             (Inl (IllegalOperationError (message_or_default m) f t),
              [Called (StrategyOnTransitionError f t m), Completed (StrategyOnTransitionError f t m)],
              w1)))
   \<and> (\<forall>h. strategy_onTransitionError s = None \<and> process_onTransitionError p = Some h \<longrightarrow>
      initConfig_onError p s f t m w =
        (case h f t m w of
           (Inl e, w1) \<Rightarrow> (Inl e, [Called (ProcessOnTransitionError f t m)], w1)
         | (Inr v, w1) \<Rightarrow>
             (Inl (IllegalOperationError (message_or_default m) f t),
              [Called (ProcessOnTransitionError f t m),
               case v of Plain u \<Rightarrow> Completed (ProcessOnTransitionError f t m)
                       | Promise q \<Rightarrow> Pending (ProcessOnTransitionError f t m)], w1)))
   \<and> (strategy_onTransitionError s = None \<and> process_onTransitionError p = None \<longrightarrow>
      initConfig_onError p s f t m w =
        (Inl (IllegalOperationError (message_or_default m) f t), [], w))
   \<and> (\<exists>e es w'. initConfig_onError p s f t m w = (Inl e, es, w'))
   \<and> message_or_default None = ''error.cannot-transition-order-from-to''
   \<and> message_or_default (Some []) = ''error.cannot-transition-order-from-to''
   \<and> (\<forall>x. x \<noteq> [] \<longrightarrow> message_or_default (Some x) = x)
   \<and> (onError cfg = None \<and> map_of (transitions cfg) (currentState fsm) = Some ds
       \<and> (st \<notin> set ds
           \<or> (\<exists>gd ges w1 gr. onTransitionStart cfg = Some gd
                \<and> gd (currentState fsm) st d w0 = (Inr gr, ges, w1)
                \<and> (gr = ResBool False \<or> (\<exists>x. gr = ResString x)))) \<longrightarrow>
       fst (transitionTo cfg st d (fsm, w0)) = Inr ())"
  using initConfig_onError_raises [of p s f t m w]
  by (simp add: onError_strategy onError_process onError_none engine_rejection_returns
      message_or_default_def)

theorem initConfig_onError_translation_witness:
  "strategy_onTransitionError vetoing_strategy = Some (\<lambda>fromState toState message. set_ext_later)
   \<and> initConfig_onError allowing_process vetoing_strategy ''AddingItems'' ''Cancelled'' (Some ''not today'')
       (a_world (an_order ''AddingItems'' [1] (Some 3))) =
     (Inl (IllegalOperationError ''not today'' ''AddingItems'' ''Cancelled''),
      [Called (StrategyOnTransitionError ''AddingItems'' ''Cancelled'' (Some ''not today'')),
       Completed (StrategyOnTransitionError ''AddingItems'' ''Cancelled'' (Some ''not today''))],
      (a_world (an_order ''AddingItems'' [1] (Some 3)))\<lparr>ext := 1\<rparr>)
   \<and> strategy_onTransitionError no_strategy = None
   \<and> process_onTransitionError allowing_process = Some (\<lambda>fromState toState message. set_ext_later)
   \<and> initConfig_onError allowing_process no_strategy ''AddingItems'' ''Cancelled'' None
       (a_world (an_order ''AddingItems'' [1] (Some 3))) =
     (Inl (IllegalOperationError ''error.cannot-transition-order-from-to'' ''AddingItems'' ''Cancelled''),
      [Called (ProcessOnTransitionError ''AddingItems'' ''Cancelled'' None),
       Pending (ProcessOnTransitionError ''AddingItems'' ''Cancelled'' None)],
      a_world (an_order ''AddingItems'' [1] (Some 3)))
   \<and> process_onTransitionError no_process = None
   \<and> initConfig_onError no_process no_strategy ''AddingItems'' ''Cancelled'' (Some [])
       (a_world (an_order ''AddingItems'' [1] (Some 3))) =
     (Inl (IllegalOperationError ''error.cannot-transition-order-from-to'' ''AddingItems'' ''Cancelled''),
      [], a_world (an_order ''AddingItems'' [1] (Some 3)))
   \<and> ''not today'' \<noteq> [] \<and> message_or_default (Some ''not today'') = ''not today''
   \<and> onError (guard_only_config (ResString ''no'')) = None
   \<and> map_of (transitions (guard_only_config (ResString ''no''))) (currentState (new_FSM ''A'')) =
       Some [''B'', ''C'']
   \<and> fst (transitionTo (guard_only_config (ResString ''no'')) ''A'' () (new_FSM ''A'', 0)) = Inr ()
   \<and> fst (transitionTo (guard_only_config (ResString ''no'')) ''B'' () (new_FSM ''A'', 0)) = Inr ()"
proof -
  have entry: "onError (guard_only_config (ResString ''no'')) = None
     \<and> map_of (transitions (guard_only_config (ResString ''no''))) (currentState (new_FSM ''A'')) =
         Some [''B'', ''C'']"
    by (simp add: guard_only_config_def scenario_graph_def new_FSM_def)
  have unreachable: "''A'' \<notin> set [''B'', ''C'']
         \<or> (\<exists>gd ges w1 gr. onTransitionStart (guard_only_config (ResString ''no'')) = Some gd
              \<and> gd (currentState (new_FSM ''A'')) ''A'' () (0::nat) = (Inr gr, ges, w1)
              \<and> (gr = ResBool False \<or> (\<exists>x. gr = ResString x)))"
    by simp
  have vetoed: "''B'' \<notin> set [''B'', ''C'']
         \<or> (\<exists>gd ges w1 gr. onTransitionStart (guard_only_config (ResString ''no'')) = Some gd
              \<and> gd (currentState (new_FSM ''A'')) ''B'' () (0::nat) = (Inr gr, ges, w1)
              \<and> (gr = ResBool False \<or> (\<exists>x. gr = ResString x)))"
    by (simp add: guard_only_config_def)
  show ?thesis
    using entry
      initConfig_onError_translation [where s = vetoing_strategy and p = allowing_process
        and f = "''AddingItems''" and t = "''Cancelled''" and m = "Some ''not today''"
        and w = "a_world (an_order ''AddingItems'' [1] (Some 3))"
        and cfg = "guard_only_config (ResString ''no'')" and fsm = "new_FSM ''A''"
        and ds = "[''B'', ''C'']" and st = "''A''" and d = "()" and ?w0.0 = "0::nat"]
      initConfig_onError_translation [where s = no_strategy and p = allowing_process
        and f = "''AddingItems''" and t = "''Cancelled''" and m = None
        and w = "a_world (an_order ''AddingItems'' [1] (Some 3))"
        and cfg = "guard_only_config (ResString ''no'')" and fsm = "new_FSM ''A''"
        and ds = "[''B'', ''C'']" and st = "''B''" and d = "()" and ?w0.0 = "0::nat"]
      initConfig_onError_translation [where s = no_strategy and p = no_process
        and f = "''AddingItems''" and t = "''Cancelled''" and m = "Some []"
        and w = "a_world (an_order ''AddingItems'' [1] (Some 3))"
        and cfg = "guard_only_config (ResString ''no'')" and fsm = "new_FSM ''A''"
        and ds = "[''B'', ''C'']" and st = "''B''" and d = "()" and ?w0.0 = "0::nat"]
      unreachable vetoed
    by (simp add: order_graph_def an_order_def a_world_def tick_def ticking_services_def
      no_strategy_def no_process_def vetoing_strategy_def allowing_process_def set_ext_later_def settle_def)
qed

text \<open>
  Claim C7 as stated has the wrapper always raise the illegal-operation error; with a
  strategy whose error hook raises, the wrapper raises that hook's error.
\<close>

theorem initConfig_onError_hook_raises:
  "initConfig_onError no_process throwing_strategy ''AddingItems'' ''Cancelled'' None
       (a_world (an_order ''AddingItems'' [1] (Some 3))) =
     (Inl (Thrown ''boom''), [Called (StrategyOnTransitionError ''AddingItems'' ''Cancelled'' None)],
      a_world (an_order ''AddingItems'' [1] (Some 3)))
   \<and> fst (transition (initConfig no_process throwing_strategy ticking_services order_graph) ()
       ''Cancelled'' (a_world (an_order ''AddingItems'' [1] (Some 3)))) = Inl (Thrown ''boom'')"
  by (simp add: run_defs order_graph_def an_order_def a_world_def tick_def ticking_services_def
      no_strategy_def no_process_def throwing_strategy_def)

section \<open>The built-in end hook\<close>

lemma await_call_success:
  "await_call c f w = (Inr r, es, w') \<Longrightarrow> es = [Called c, Completed c]"
  by (auto simp: await_call_def split: prod.splits sum.splits)

lemma builtin_end_success:
  assumes "OrderStateMachine_onTransitionEnd svc f t d w = (Inr u, es, w')"
  shows "\<exists>oid. es =
      (if t = ''PaymentAuthorized'' \<or> t = ''PaymentSettled'' then
         [SetActive False, SetOrderPlacedAt (clock w), Called CreateSalesForOrder,
          Completed CreateSalesForOrder, Called AddPromotionsToOrder, Completed AddPromotionsToOrder]
       else [])
      @ (if t = ''Cancelled'' then [SetActive False] else [])
      @ [Called (CreateHistoryEntryForOrder oid f t), Completed (CreateHistoryEntryForOrder oid f t)]"
  using assms
  by (auto simp: OrderStateMachine_onTransitionEnd_def get_order_def return_def set_active_def
      stamp_orderPlacedAt_def elim!: bind_cases dest!: await_call_success split: if_splits)

lemma end_hook_success:
  assumes "initConfig_onTransitionEnd p s svc f t d w = (Inr u, es, w')"
  shows "\<exists>w1 es'. OrderStateMachine_onTransitionEnd svc f t d w1 = (Inr u, es', w')
      \<and> (es = es'
         \<or> es = [Called (StrategyOnTransitionEnd f t), Completed (StrategyOnTransitionEnd f t)] @ es'
         \<or> es = [Called (ProcessOnTransitionEnd f t), Completed (ProcessOnTransitionEnd f t)] @ es'
         \<or> es = [Called (ProcessOnTransitionEnd f t), Pending (ProcessOnTransitionEnd f t)] @ es')
      \<and> (strategy_onTransitionEnd s = None \<and> process_onTransitionEnd p = None \<longrightarrow> w1 = w)"
proof -
  from assms obtain a es1 w1 es2 where
    first: "(case strategy_onTransitionEnd s of
          Some h \<Rightarrow> await_call (StrategyOnTransitionEnd f t) (h f t d)
        | None \<Rightarrow>
            (case process_onTransitionEnd p of
               Some h \<Rightarrow> call_unawaited (ProcessOnTransitionEnd f t) (h f t d)
             | None \<Rightarrow> return ())) w = (Inr a, es1, w1)"
    and rest: "OrderStateMachine_onTransitionEnd svc f t d w1 = (Inr u, es2, w')" "es = es1 @ es2"
    unfolding initConfig_onTransitionEnd_def by (elim bind_cases) auto
  have "es1 = [] \<and> (strategy_onTransitionEnd s = None \<and> process_onTransitionEnd p = None \<longrightarrow> w1 = w)
      \<or> es1 = [Called (StrategyOnTransitionEnd f t), Completed (StrategyOnTransitionEnd f t)]
          \<and> strategy_onTransitionEnd s \<noteq> None
      \<or> es1 = [Called (ProcessOnTransitionEnd f t), Completed (ProcessOnTransitionEnd f t)]
          \<and> process_onTransitionEnd p \<noteq> None
      \<or> es1 = [Called (ProcessOnTransitionEnd f t), Pending (ProcessOnTransitionEnd f t)]
          \<and> process_onTransitionEnd p \<noteq> None"
    using first
    by (auto simp: return_def dest!: await_call_success call_unawaited_events split: option.splits)
  with rest show ?thesis
    by (intro exI [of _ w1] exI [of _ es2]) auto
qed

lemma start_hook_events:
  assumes "initConfig_onTransitionStart p s f t d w = (r, es, w')"
  shows "set es \<subseteq> {Called (StrategyOnTransitionStart f t), Completed (StrategyOnTransitionStart f t),
                     Called (ProcessOnTransitionStart f t), Completed (ProcessOnTransitionStart f t)}
      \<and> (strategy_onTransitionStart s = None \<and> process_onTransitionStart p = None \<longrightarrow> w' = w)"
  using assms
  by (auto simp: initConfig_onTransitionStart_def return_def builtin_start_value elim!: bind_cases
      dest!: await_call_events split: option.splits sum.splits if_splits)


lemma payment_run:
  assumes run: "transition (initConfig p s svc g) ctx st w = (Inr (), t, w')"
    and st: "st = ''PaymentAuthorized'' \<or> st = ''PaymentSettled''"
  shows "count_list t (Client (Called CreateSalesForOrder)) = 1
       \<and> count_list t (Client (Called AddPromotionsToOrder)) = 1
       \<and> (\<exists>ts. count_list t (Client (SetOrderPlacedAt ts)) = 1
             \<and> (\<forall>n. n \<noteq> ts \<longrightarrow> count_list t (Client (SetOrderPlacedAt n)) = 0)
             \<and> (strategy_onTransitionStart s = None \<and> process_onTransitionStart p = None
                \<and> strategy_onTransitionEnd s = None \<and> process_onTransitionEnd p = None
                \<longrightarrow> ts = clock w))"
  using run
proof (cases rule: transition_initConfig_cases)
  case (success ds gr ges w1 es w2)
  let ?cur = "state (order w)"
  note sh = start_hook_events [OF success(3)]
  have ges: "count_list ges x = 0"
    if "x \<notin> {Called (StrategyOnTransitionStart ?cur st), Completed (StrategyOnTransitionStart ?cur st),
              Called (ProcessOnTransitionStart ?cur st), Completed (ProcessOnTransitionStart ?cur st)}"
    for x
    using sh that by (auto simp: count_list_0_iff)
  obtain wm es' where en: "OrderStateMachine_onTransitionEnd svc ?cur st ctx wm = (Inr (), es', w2)"
    and pre: "es = es'
         \<or> es = [Called (StrategyOnTransitionEnd ?cur st), Completed (StrategyOnTransitionEnd ?cur st)] @ es'
         \<or> es = [Called (ProcessOnTransitionEnd ?cur st), Completed (ProcessOnTransitionEnd ?cur st)] @ es'
         \<or> es = [Called (ProcessOnTransitionEnd ?cur st), Pending (ProcessOnTransitionEnd ?cur st)] @ es'"
    and wm: "strategy_onTransitionEnd s = None \<and> process_onTransitionEnd p = None \<longrightarrow> wm = w1"
    using end_hook_success [OF success(6)] by blast
  obtain oid where es': "es' =
      [SetActive False, SetOrderPlacedAt (clock wm), Called CreateSalesForOrder,
       Completed CreateSalesForOrder, Called AddPromotionsToOrder, Completed AddPromotionsToOrder,
       Called (CreateHistoryEntryForOrder oid ?cur st), Completed (CreateHistoryEntryForOrder oid ?cur st)]"
    using builtin_end_success [OF en] st by auto
  have t: "t = GuardInvoked ?cur st # map Client ges @ Committed st # EndInvoked ?cur st # map Client es
              @ [Client (SetState st)]"
    by (rule success(8))
  have c1: "count_list t (Client (Called CreateSalesForOrder)) = 1"
    "count_list t (Client (Called AddPromotionsToOrder)) = 1"
    using pre by (auto simp: t es' count_Client ges)
  have c2: "count_list t (Client (SetOrderPlacedAt n)) = (if n = clock wm then 1 else 0)" for n
    using pre by (auto simp: t es' count_Client ges)
  have c3: "clock wm = clock w"
    if "strategy_onTransitionStart s = None \<and> process_onTransitionStart p = None
        \<and> strategy_onTransitionEnd s = None \<and> process_onTransitionEnd p = None"
    using that sh wm by simp
  show ?thesis
    using c1 c2 c3 by (intro conjI exI [of _ "clock wm"]) auto
qed simp_all

text \<open>
  A run that returns normally has its actions in this order: the guard's, the commit, the
  end hook's, the write of the entity's state.
\<close>

lemma successful_transition_order:
  assumes "transition (initConfig p s svc g) ctx st w = (Inr (), t, w')"
  shows "\<exists>ges es. t = GuardInvoked (state (order w)) st # map Client ges @
           Committed st # EndInvoked (state (order w)) st # map Client es @ [Client (SetState st)]"
  using assms by (cases rule: transition_initConfig_cases) auto

text \<open>
  Claim C10. When an order's transition into PaymentAuthorized returns normally and the
  transition into PaymentSettled that follows returns normally too, each of the two runs
  calls the stock-movement service once and the promotion service once, two calls of each
  in all, and the second run stamps \<^verbatim>\<open>orderPlacedAt\<close> once again, whatever the field
  held: with no external guard and end hook configured, with the clock's reading at the
  start of that second run.
\<close>

theorem payment_side_effects_on_each_entrance:
  assumes "transition (initConfig p s svc g) ctx ''PaymentAuthorized'' w0 = (Inr (), t1, w1)"
    and "transition (initConfig p s svc g) ctx ''PaymentSettled'' w1 = (Inr (), t2, w2)"
  shows "count_list t1 (Client (Called CreateSalesForOrder)) = 1
       \<and> count_list t1 (Client (Called AddPromotionsToOrder)) = 1
       \<and> count_list t2 (Client (Called CreateSalesForOrder)) = 1
       \<and> count_list t2 (Client (Called AddPromotionsToOrder)) = 1
       \<and> count_list (t1 @ t2) (Client (Called CreateSalesForOrder)) = 2
       \<and> count_list (t1 @ t2) (Client (Called AddPromotionsToOrder)) = 2
       \<and> (\<exists>ts. count_list t2 (Client (SetOrderPlacedAt ts)) = 1
             \<and> (\<forall>n. n \<noteq> ts \<longrightarrow> count_list t2 (Client (SetOrderPlacedAt n)) = 0)
             \<and> (strategy_onTransitionStart s = None \<and> process_onTransitionStart p = None
                \<and> strategy_onTransitionEnd s = None \<and> process_onTransitionEnd p = None
                \<longrightarrow> ts = clock w1))"
  using payment_run [OF assms(1)] payment_run [OF assms(2)]
  by (simp del: count_list.simps)


theorem payment_side_effects_on_each_entrance_witness:
  "transition (initConfig no_process no_strategy ticking_services order_graph) () ''PaymentAuthorized'' (a_world (an_order ''ArrangingPayment'' [1] (Some 3))) =
     (Inr (),
      [GuardInvoked ''ArrangingPayment'' ''PaymentAuthorized'', Committed ''PaymentAuthorized'',
       EndInvoked ''ArrangingPayment'' ''PaymentAuthorized'',
       Client (SetActive False), Client (SetOrderPlacedAt 5),
       Client (Called CreateSalesForOrder), Client (Completed CreateSalesForOrder),
       Client (Called AddPromotionsToOrder), Client (Completed AddPromotionsToOrder),
       Client (Called (CreateHistoryEntryForOrder 7 ''ArrangingPayment'' ''PaymentAuthorized'')),
       Client (Completed (CreateHistoryEntryForOrder 7 ''ArrangingPayment'' ''PaymentAuthorized'')),
       Client (SetState ''PaymentAuthorized'')],
      \<lparr>order = \<lparr>order_id = 7, state = ''PaymentAuthorized'', lines = [1], customer = Some 3,
                active = False, orderPlacedAt = Some 5\<rparr>, clock = 8, ext = 0\<rparr>)
   \<and> transition (initConfig no_process no_strategy ticking_services order_graph) () ''PaymentSettled''
       \<lparr>order = \<lparr>order_id = 7, state = ''PaymentAuthorized'', lines = [1], customer = Some 3,
                active = False, orderPlacedAt = Some 5\<rparr>, clock = 8, ext = 0\<rparr> =
     (Inr (),
      [GuardInvoked ''PaymentAuthorized'' ''PaymentSettled'', Committed ''PaymentSettled'',
       EndInvoked ''PaymentAuthorized'' ''PaymentSettled'',
       Client (SetActive False), Client (SetOrderPlacedAt 8),
       Client (Called CreateSalesForOrder), Client (Completed CreateSalesForOrder),
       Client (Called AddPromotionsToOrder), Client (Completed AddPromotionsToOrder),
       Client (Called (CreateHistoryEntryForOrder 7 ''PaymentAuthorized'' ''PaymentSettled'')),
       Client (Completed (CreateHistoryEntryForOrder 7 ''PaymentAuthorized'' ''PaymentSettled'')),
       Client (SetState ''PaymentSettled'')],
      \<lparr>order = \<lparr>order_id = 7, state = ''PaymentSettled'', lines = [1], customer = Some 3,
                active = False, orderPlacedAt = Some 8\<rparr>, clock = 11, ext = 0\<rparr>)
   \<and> count_list
        ([GuardInvoked ''ArrangingPayment'' ''PaymentAuthorized'', Committed ''PaymentAuthorized'',
       EndInvoked ''ArrangingPayment'' ''PaymentAuthorized'',
       Client (SetActive False), Client (SetOrderPlacedAt 5),
       Client (Called CreateSalesForOrder), Client (Completed CreateSalesForOrder),
       Client (Called AddPromotionsToOrder), Client (Completed AddPromotionsToOrder),
       Client (Called (CreateHistoryEntryForOrder 7 ''ArrangingPayment'' ''PaymentAuthorized'')),
       Client (Completed (CreateHistoryEntryForOrder 7 ''ArrangingPayment'' ''PaymentAuthorized'')),
       Client (SetState ''PaymentAuthorized'')] @
         [GuardInvoked ''PaymentAuthorized'' ''PaymentSettled'', Committed ''PaymentSettled'',
       EndInvoked ''PaymentAuthorized'' ''PaymentSettled'',
       Client (SetActive False), Client (SetOrderPlacedAt 8),
       Client (Called CreateSalesForOrder), Client (Completed CreateSalesForOrder),
       Client (Called AddPromotionsToOrder), Client (Completed AddPromotionsToOrder),
       Client (Called (CreateHistoryEntryForOrder 7 ''PaymentAuthorized'' ''PaymentSettled'')),
       Client (Completed (CreateHistoryEntryForOrder 7 ''PaymentAuthorized'' ''PaymentSettled'')),
       Client (SetState ''PaymentSettled'')]) (Client (Called CreateSalesForOrder)) = 2
   \<and> count_list
        ([GuardInvoked ''ArrangingPayment'' ''PaymentAuthorized'', Committed ''PaymentAuthorized'',
       EndInvoked ''ArrangingPayment'' ''PaymentAuthorized'',
       Client (SetActive False), Client (SetOrderPlacedAt 5),
       Client (Called CreateSalesForOrder), Client (Completed CreateSalesForOrder),
       Client (Called AddPromotionsToOrder), Client (Completed AddPromotionsToOrder),
       Client (Called (CreateHistoryEntryForOrder 7 ''ArrangingPayment'' ''PaymentAuthorized'')),
       Client (Completed (CreateHistoryEntryForOrder 7 ''ArrangingPayment'' ''PaymentAuthorized'')),
       Client (SetState ''PaymentAuthorized'')] @
         [GuardInvoked ''PaymentAuthorized'' ''PaymentSettled'', Committed ''PaymentSettled'',
       EndInvoked ''PaymentAuthorized'' ''PaymentSettled'',
       Client (SetActive False), Client (SetOrderPlacedAt 8),
       Client (Called CreateSalesForOrder), Client (Completed CreateSalesForOrder),
       Client (Called AddPromotionsToOrder), Client (Completed AddPromotionsToOrder),
       Client (Called (CreateHistoryEntryForOrder 7 ''PaymentAuthorized'' ''PaymentSettled'')),
       Client (Completed (CreateHistoryEntryForOrder 7 ''PaymentAuthorized'' ''PaymentSettled'')),
       Client (SetState ''PaymentSettled'')]) (Client (Called AddPromotionsToOrder)) = 2"
proof -
  have first: "transition (initConfig no_process no_strategy ticking_services order_graph) () ''PaymentAuthorized''
       (a_world (an_order ''ArrangingPayment'' [1] (Some 3))) =
     (Inr (),
      [GuardInvoked ''ArrangingPayment'' ''PaymentAuthorized'', Committed ''PaymentAuthorized'',
       EndInvoked ''ArrangingPayment'' ''PaymentAuthorized'',
       Client (SetActive False), Client (SetOrderPlacedAt 5),
       Client (Called CreateSalesForOrder), Client (Completed CreateSalesForOrder),
       Client (Called AddPromotionsToOrder), Client (Completed AddPromotionsToOrder),
       Client (Called (CreateHistoryEntryForOrder 7 ''ArrangingPayment'' ''PaymentAuthorized'')),
       Client (Completed (CreateHistoryEntryForOrder 7 ''ArrangingPayment'' ''PaymentAuthorized'')),
       Client (SetState ''PaymentAuthorized'')],
      \<lparr>order = \<lparr>order_id = 7, state = ''PaymentAuthorized'', lines = [1], customer = Some 3,
                active = False, orderPlacedAt = Some 5\<rparr>, clock = 8, ext = 0\<rparr>)"
    by (simp add: run_defs order_graph_def an_order_def a_world_def tick_def ticking_services_def
      no_strategy_def no_process_def)
  have second: "transition (initConfig no_process no_strategy ticking_services order_graph) () ''PaymentSettled''
       \<lparr>order = \<lparr>order_id = 7, state = ''PaymentAuthorized'', lines = [1], customer = Some 3,
                active = False, orderPlacedAt = Some 5\<rparr>, clock = 8, ext = 0\<rparr> =
     (Inr (),
      [GuardInvoked ''PaymentAuthorized'' ''PaymentSettled'', Committed ''PaymentSettled'',
       EndInvoked ''PaymentAuthorized'' ''PaymentSettled'',
       Client (SetActive False), Client (SetOrderPlacedAt 8),
       Client (Called CreateSalesForOrder), Client (Completed CreateSalesForOrder),
       Client (Called AddPromotionsToOrder), Client (Completed AddPromotionsToOrder),
       Client (Called (CreateHistoryEntryForOrder 7 ''PaymentAuthorized'' ''PaymentSettled'')),
       Client (Completed (CreateHistoryEntryForOrder 7 ''PaymentAuthorized'' ''PaymentSettled'')),
       Client (SetState ''PaymentSettled'')],
      \<lparr>order = \<lparr>order_id = 7, state = ''PaymentSettled'', lines = [1], customer = Some 3,
                active = False, orderPlacedAt = Some 8\<rparr>, clock = 11, ext = 0\<rparr>)"
    by (simp add: run_defs order_graph_def an_order_def a_world_def tick_def ticking_services_def
      no_strategy_def no_process_def)
  note both = payment_side_effects_on_each_entrance [OF first second]
  show ?thesis
    by (intro conjI first second
        both [THEN conjunct2, THEN conjunct2, THEN conjunct2, THEN conjunct2, THEN conjunct1]
        both [THEN conjunct2, THEN conjunct2, THEN conjunct2, THEN conjunct2, THEN conjunct2,
          THEN conjunct1])
qed

section \<open>The end hook of the process options\<close>

text \<open>
  Claim C3 at an end hook that returns a promise. Supplied by the process options, the
  hook is called and its promise dropped: \<^verbatim>\<open>transition\<close> returns with the promise
  pending and its effect undone (the external state is still 0), the history entry and the
  write of the entity's state having gone ahead of it. The same hook supplied by the
  strategy is awaited: its effect is there (the external state is 1) before the history
  entry and the write.
\<close>

theorem process_onTransitionEnd_not_awaited:
  "transition (initConfig async_end_process no_strategy ticking_services order_graph) ()
       ''ArrangingPayment'' (a_world (an_order ''AddingItems'' [1] (Some 3))) =
     (Inr (),
      [GuardInvoked ''AddingItems'' ''ArrangingPayment'', Committed ''ArrangingPayment'',
       EndInvoked ''AddingItems'' ''ArrangingPayment'',
       Client (Called (ProcessOnTransitionEnd ''AddingItems'' ''ArrangingPayment'')),
       Client (Pending (ProcessOnTransitionEnd ''AddingItems'' ''ArrangingPayment'')),
       Client (Called (CreateHistoryEntryForOrder 7 ''AddingItems'' ''ArrangingPayment'')),
       Client (Completed (CreateHistoryEntryForOrder 7 ''AddingItems'' ''ArrangingPayment'')),
       Client (SetState ''ArrangingPayment'')],
      \<lparr>order = an_order ''ArrangingPayment'' [1] (Some 3), clock = 6, ext = 0\<rparr>)
   \<and> transition (initConfig no_process async_end_strategy ticking_services order_graph) ()
       ''ArrangingPayment'' (a_world (an_order ''AddingItems'' [1] (Some 3))) =
     (Inr (),
      [GuardInvoked ''AddingItems'' ''ArrangingPayment'', Committed ''ArrangingPayment'',
       EndInvoked ''AddingItems'' ''ArrangingPayment'',
       Client (Called (StrategyOnTransitionEnd ''AddingItems'' ''ArrangingPayment'')),
       Client (Completed (StrategyOnTransitionEnd ''AddingItems'' ''ArrangingPayment'')),
       Client (Called (CreateHistoryEntryForOrder 7 ''AddingItems'' ''ArrangingPayment'')),
       Client (Completed (CreateHistoryEntryForOrder 7 ''AddingItems'' ''ArrangingPayment'')),
       Client (SetState ''ArrangingPayment'')],
      \<lparr>order = an_order ''ArrangingPayment'' [1] (Some 3), clock = 6, ext = 1\<rparr>)"
  by (simp add: run_defs order_graph_def an_order_def a_world_def tick_def ticking_services_def
      no_strategy_def no_process_def async_end_process_def async_end_strategy_def set_ext_later_def)

section \<open>Merging transition definitions\<close>

text \<open>
  When the loop raises. For the keys of the override itself it raises in one way only:
  \<^verbatim>\<open>merged.hasOwnProperty\<close> is called while \<^verbatim>\<open>merged\<close> has a property of that
  name, which is so from the start when the base has one, and from the next key on when
  the loop has just given it one.
\<close>

lemma merge_keys_raises:
  assumes "\<forall>k\<in>set keys. map_of (properties s c) k \<noteq> None"
  shows "if keys = [] \<or> (map_of (properties s b) ''hasOwnProperty'' = None
                          \<and> ''hasOwnProperty'' \<notin> set (butlast keys))
         then \<exists>s'. merge_keys b c keys s = Inr s'
         else merge_keys b c keys s = Inl TypeError"
  using assms
proof (induction keys arbitrary: s)
  case Nil
  then show ?case by simp
next
  case (Cons k ks)
  then obtain ce where ce: "map_of (properties s c) k = Some ce" by auto
  show ?case
  proof (cases "map_of (properties s b) ''hasOwnProperty''")
    case (Some h)
    then show ?thesis by simp
  next
    case hop: None
    show ?thesis
    proof (cases "map_of (properties s b) k")
      case (Some m)
      let ?s1 = "s\<lparr>to_field := (to_field s)(m := to_field s m @ to_field s ce)\<rparr>"
      from Cons.prems have "\<forall>k'\<in>set ks. map_of (properties ?s1 c) k' \<noteq> None" by simp
      note ih = Cons.IH [OF this]
      from hop Some have "k \<noteq> ''hasOwnProperty''" by auto
      with ih hop Some ce show ?thesis by simp
    next
      case None
      with ce have bc: "b \<noteq> c" by auto
      show ?thesis
      proof (cases "k = ''__proto__''")
        case True
        let ?s1 = "s\<lparr>prototype := (prototype s)(b := Some ce)\<rparr>"
        from Cons.prems have "\<forall>k'\<in>set ks. map_of (properties ?s1 c) k' \<noteq> None" by simp
        note ih = Cons.IH [OF this]
        with hop None ce True show ?thesis by simp
      next
        case False
        let ?s1 = "s\<lparr>properties := (properties s)(b := properties s b @ [(k, ce)])\<rparr>"
        from Cons.prems bc have "\<forall>k'\<in>set ks. map_of (properties ?s1 c) k' \<noteq> None" by simp
        note ih = Cons.IH [OF this]
        have "map_of (properties ?s1 b) ''hasOwnProperty'' = None \<longleftrightarrow> k \<noteq> ''hasOwnProperty''"
          using hop by (simp add: map_add_def)
        with ih hop None ce False show ?thesis by (cases "ks = []") (auto split: if_splits)
      qed
    qed
  qed
qed

lemma Object_keys_own:
  "(k \<in> set (Object_keys s r)) = (map_of (properties s r) k \<noteq> None)"
  by (simp add: Object_keys_def map_of_eq_None_iff)

lemma mergeTransitionDefinitions_raises:
  "(mergeTransitionDefinitions b (Some c) s = Inl TypeError) =
     (Object_keys s c \<noteq> []
      \<and> (map_of (properties s b) ''hasOwnProperty'' \<noteq> None
         \<or> ''hasOwnProperty'' \<in> set (butlast (Object_keys s c))))"
proof -
  have "\<forall>k\<in>set (Object_keys s c). map_of (properties s c) k \<noteq> None"
    by (simp add: Object_keys_own)
  from merge_keys_raises [OF this, of b] show ?thesis
    by (auto simp: mergeTransitionDefinitions_def split: if_splits)
qed





section \<open>Repeated builds\<close>

text \<open>
  Claim C2 at two builds with the same override. \<^verbatim>\<open>merged\<close> is the base object
  itself, not a copy of it. The first build appends the override's destinations to the
  base's entry for S and puts the override's entry object for N into the base. The second
  build appends the override's destinations for S once more, and for N finds the key in
  the base, whose entry is now the override's own object, and appends that object's list
  to itself: the second configuration's graph has accumulated the first build's additions,
  and the caller's override has been changed.
\<close>

theorem second_build_accumulates_and_mutates_override:
  "graph_of a_store 0 = [(''S'', [''Y''])]
   \<and> graph_of a_store 1 = [(''S'', [''X'']), (''N'', [''A''])]
   \<and> (case mergeTransitionDefinitions 0 (Some 1) a_store of
         Inl e \<Rightarrow> None
       | Inr (merged, s') \<Rightarrow> Some merged) = Some 0
   \<and> (case build_twice 0 (Some 1) a_store of
         Inl e \<Rightarrow> None
       | Inr (first, second, s2) \<Rightarrow> Some (first, second, graph_of s2 1)) =
       Some ([(''S'', [''Y'', ''X'']), (''N'', [''A''])],
             [(''S'', [''Y'', ''X'', ''X'']), (''N'', [''A'', ''A''])],
             [(''S'', [''X'']), (''N'', [''A'', ''A''])])"
  by (simp add: build_twice_def build_allTransitions_def mergeTransitionDefinitions_def
      Object_keys_def graph_of_def a_store_def)

end
